theory Spec2Isabelle
  imports Main "HOL-Library.Word" "HOL-Library.Sublist"
begin

unbundle bit_operations_syntax

section \<open>Python values shared by the two notebooks\<close>

text \<open>
  The notebooks \<^verbatim>\<open>annotation-table.ipynb\<close> and \<^verbatim>\<open>keyword-search.ipynb\<close> are plain
  Python. Every exception the interpreter or a library can raise on the modelled paths is
  a value of \<open>error\<close>; a function that can raise returns \<open>error + 'a\<close> with \<open>Inl\<close> the
  exception, and \<open>and_then\<close> runs the next statement when the one before did not raise.
  \<open>ParseError\<close> and \<open>EmptyRegionError\<close> are the names of the specification's error
  taxonomy: no line of the notebooks raises them.
\<close>

datatype error =
    IndexError | ValueError | KeyError | TypeError | AttributeError | OverflowError
  | CvError | JSONDecodeError | RequestException | ParseError | EmptyRegionError

definition and_then :: "error + 'a \<Rightarrow> ('a \<Rightarrow> error + 'b) \<Rightarrow> error + 'b" where
  "and_then m f = (case m of Inl e \<Rightarrow> Inl e | Inr x \<Rightarrow> f x)"

subsection \<open>Strings\<close>

text \<open>
  A Python string is the list of the bytes of its UTF-8 encoding. Concatenation, the
  substring test and splitting at an ASCII character give the same result on the bytes
  as on the characters. \<^verbatim>\<open>str.lower()\<close> does not: it follows the Unicode tables of the
  Python runtime, so it is a parameter, \<open>lower\<close>, of every function that calls it.

  \<^verbatim>\<open>k in s\<close> on two strings: \<open>k\<close> occurs in \<open>s\<close> as a contiguous run.
\<close>

fun str_in :: "string \<Rightarrow> string \<Rightarrow> bool" where
  "str_in k [] = (k = [])"
| "str_in k (c # cs) = (prefix k (c # cs) \<or> str_in k cs)"

text \<open>\<^verbatim>\<open>sep.join(xs)\<close> on a list of strings.\<close>

fun join :: "string \<Rightarrow> string list \<Rightarrow> string" where
  "join sep [] = []"
| "join sep [x] = x"
| "join sep (x # y # ys) = x @ sep @ join sep (y # ys)"

text \<open>
  \<^verbatim>\<open>s.split(c)\<close> with a one-character separator: every occurrence of \<open>c\<close> ends a field,
  so an empty string gives one empty field and a trailing separator a last empty field.
  The result is never the empty list, so the last case of the definition is never taken.
\<close>

fun split_str :: "char \<Rightarrow> string \<Rightarrow> string list" where
  "split_str c [] = [[]]"
| "split_str c (x # xs) =
     (if x = c then [] # split_str c xs
      else (case split_str c xs of
              field # more \<Rightarrow> (x # field) # more
            | [] \<Rightarrow> [[x]]))"

text \<open>\<^verbatim>\<open>'{}'.format(n)\<close> for a non-negative integer: its decimal digits.\<close>

fun str_nat :: "nat \<Rightarrow> string" where
  "str_nat n =
     (if n < 10 then [''0123456789'' ! n]
      else str_nat (n div 10) @ [''0123456789'' ! (n mod 10)])"

text \<open>
  The characters of a string, as iterating it yields them: in UTF-8 a character is a
  byte that is no continuation byte (\<open>0x80\<close> to \<open>0xBF\<close>) with the continuation bytes
  that follow it.
\<close>

definition continuation_byte :: "char \<Rightarrow> bool" where
  "continuation_byte c = (128 \<le> (of_char c :: nat) \<and> (of_char c :: nat) < 192)"

function py_chars :: "string \<Rightarrow> string list" where
  "py_chars [] = []"
| "py_chars (c # cs) =
     (c # takeWhile continuation_byte cs) # py_chars (dropWhile continuation_byte cs)"
  by pat_completeness auto
termination
  by (relation "measure length") (auto simp: length_dropWhile_le le_imp_less_Suc)

subsection \<open>Annotations\<close>

text \<open>
  An annotation of the keyword search is the JSON object the IAW API returns, read
  through the paths the notebook uses: \<^verbatim>\<open>annotation['image_id']\<close>,
  \<^verbatim>\<open>annotation['target']['selector']['value']\<close> and \<^verbatim>\<open>annotation['fields']\<close>. A field
  that is present is read as \<^verbatim>\<open>fields[name]['en']['values']\<close>, a list of strings; the
  values of \<^verbatim>\<open>tag\<close> are objects read through \<^verbatim>\<open>['term_label']\<close>. A field that is absent
  (\<^verbatim>\<open>name in fields\<close> is false) is \<open>None\<close>. The field \<^verbatim>\<open>note\<close> is spelled \<open>note'\<close>.
\<close>

record tag_value =
  term_label :: string

record annotation_fields =
  title :: "string list option"
  tag :: "tag_value list option"
  note' :: "string list option"
  line_color :: "string list option"

datatype annotation =
  Annotation (image_id: nat) (selector: string) (fields: annotation_fields)

section \<open>The keyword filter\<close>

text \<open>
  \<^verbatim>\<open>annotation_contains_keyword\<close> (keyword-search.ipynb): two loops, each returning
  \<open>True\<close> at the first value that contains the keyword; the title loop runs first.
  \<open>lower\<close> is the runtime's \<^verbatim>\<open>str.lower()\<close>.
\<close>

fun title_loop :: "(string \<Rightarrow> string) \<Rightarrow> string \<Rightarrow> string list \<Rightarrow> bool" where
  "title_loop lower keyword [] = False"
| "title_loop lower keyword (title_value # rest) =
     (if str_in (lower keyword) (lower title_value) then True
      else title_loop lower keyword rest)"

fun tag_loop :: "(string \<Rightarrow> string) \<Rightarrow> string \<Rightarrow> tag_value list \<Rightarrow> bool" where
  "tag_loop lower keyword [] = False"
| "tag_loop lower keyword (tag_value # rest) =
     (if str_in (lower keyword) (lower (term_label tag_value)) then True
      else tag_loop lower keyword rest)"

definition annotation_contains_keyword ::
  "(string \<Rightarrow> string) \<Rightarrow> annotation \<Rightarrow> string \<Rightarrow> bool"
where
  "annotation_contains_keyword lower annotation keyword =
     (let fs = fields annotation in
      if (case title fs of None \<Rightarrow> False | Some vs \<Rightarrow> title_loop lower keyword vs) then True
      else if (case tag fs of None \<Rightarrow> False | Some ts \<Rightarrow> tag_loop lower keyword ts) then True
      else False)"

section \<open>The polygon extractor\<close>

text \<open>
  \<^verbatim>\<open>extract_polygon_points\<close> (both notebooks). The field after the first double quote
  is cut at every single space; each piece is cut at its commas and must unpack into
  exactly two halves (\<^verbatim>\<open>x, y = point.split(',')\<close> raises \<^verbatim>\<open>ValueError\<close> otherwise).
  \<^verbatim>\<open>selector.split('"')[1]\<close> raises \<^verbatim>\<open>IndexError\<close> when the selector has no double
  quote. The conversion \<^verbatim>\<open>int(float(s))\<close> belongs to the Python runtime (binary floating
  point, truncation towards zero, \<^verbatim>\<open>ValueError\<close> on a string that is no number,
  \<^verbatim>\<open>OverflowError\<close> on an infinity): it is the parameter \<open>int_float\<close>.
\<close>

fun points_loop ::
  "(string \<Rightarrow> error + int) \<Rightarrow> string list \<Rightarrow> (int \<times> int) list \<Rightarrow> error + (int \<times> int) list"
where
  "points_loop int_float [] points = Inr points"
| "points_loop int_float (point # rest) points =
     (case split_str CHR '','' point of
        [x, y] \<Rightarrow>
          (case int_float x of
             Inl e \<Rightarrow> Inl e
           | Inr xi \<Rightarrow>
               (case int_float y of
                  Inl e \<Rightarrow> Inl e
                | Inr yi \<Rightarrow> points_loop int_float rest (points @ [(xi, yi)])))
      | _ \<Rightarrow> Inl ValueError)"

definition extract_polygon_points ::
  "(string \<Rightarrow> error + int) \<Rightarrow> string \<Rightarrow> error + (int \<times> int) list"
where
  "extract_polygon_points int_float sel =
     (case split_str (CHR 0x22) sel of
        _ # selector_value # _ \<Rightarrow> points_loop int_float (split_str CHR '' '' selector_value) []
      | _ \<Rightarrow> Inl IndexError)"

section \<open>The cropper\<close>

text \<open>
  Every image of the notebooks comes from \<^verbatim>\<open>cv2.imdecode(..., cv2.IMREAD_COLOR)\<close>, which
  returns a NumPy array of shape height x width x 3 with \<^verbatim>\<open>uint8\<close> entries, or from a
  crop of such an array: a list of rows, each a list of pixels, each pixel its three
  channel values. So \<^verbatim>\<open>image.shape[2]\<close> is 3 and the mask colour
  \<^verbatim>\<open>(255,) * channel_count\<close> is \<open>(255, 255, 255)\<close>.
\<close>

type_synonym pixel = "8 word \<times> 8 word \<times> 8 word"

type_synonym image = "pixel list list"

definition channels :: "pixel \<Rightarrow> 8 word list" where
  "channels px = (case px of (c0, c1, c2) \<Rightarrow> [c0, c1, c2])"

definition np_zeros_like :: "image \<Rightarrow> image" where
  "np_zeros_like img = map (map (\<lambda>_. (0, 0, 0))) img"

text \<open>
  An array that \<^verbatim>\<open>cv2.imdecode\<close> returned has at least one row and one column, and its
  rows have one length.
\<close>

definition decoded_image :: "image \<Rightarrow> bool" where
  "decoded_image img =
     (img \<noteq> [] \<and> list_all (\<lambda>row. row \<noteq> [] \<and> length row = length (hd img)) img)"

text \<open>
  \<^verbatim>\<open>np.array([points], dtype=np.int32)\<close> stores every coordinate in 32 bits. A
  coordinate within the range of \<^verbatim>\<open>int32\<close> is stored as it is. For a coordinate outside
  it NumPy raises \<^verbatim>\<open>OverflowError\<close> or, before NumPy 2 and for a value that fits a C long,
  stores the value wrapped around: which of the two is the parameter \<open>wide\<close> (true where
  NumPy raises). The stored values only reach \<^verbatim>\<open>cv2.fillPoly\<close>.
\<close>

definition np_int32_raises :: "(int \<Rightarrow> bool) \<Rightarrow> int \<Rightarrow> bool" where
  "np_int32_raises wide v = (\<not> (- 2147483648 \<le> v \<and> v \<le> 2147483647) \<and> wide v)"

text \<open>
  \<^verbatim>\<open>cv2.fillPoly(mask, roi_corners, ignore_mask_color)\<close> writes the colour into every
  pixel the polygon covers and leaves the others. Which pixels of column \<open>x\<close> and row
  \<open>y\<close> the polygon covers is OpenCV's scanline rule, applied to the corner list after its
  conversion to \<^verbatim>\<open>int32\<close>: it is the parameter \<open>covers\<close>.
\<close>

definition fillPoly ::
  "((int \<times> int) list \<Rightarrow> nat \<Rightarrow> nat \<Rightarrow> bool) \<Rightarrow> image \<Rightarrow> (int \<times> int) list \<Rightarrow> pixel \<Rightarrow> image"
where
  "fillPoly covers msk roi_corners color =
     map (\<lambda>(y, row). map (\<lambda>(x, px). if covers roi_corners x y then color else px)
                          (enumerate 0 row))
         (enumerate 0 msk)"

definition bitwise_and :: "image \<Rightarrow> image \<Rightarrow> image" where
  "bitwise_and a b =
     map2 (map2 (\<lambda>(a0, a1, a2) (b0, b1, b2). (a0 AND b0, a1 AND b1, a2 AND b2))) a b"

definition masked_image ::
  "((int \<times> int) list \<Rightarrow> nat \<Rightarrow> nat \<Rightarrow> bool) \<Rightarrow> image \<Rightarrow> (int \<times> int) list \<Rightarrow> image"
where
  "masked_image covers img points =
     (let msk = np_zeros_like img;
          ignore_mask_color = (255, 255, 255);
          msk = fillPoly covers msk points ignore_mask_color
      in bitwise_and img msk)"

text \<open>
  \<^verbatim>\<open>np.where(a != 0)\<close>: the indices \<open>(y, x, c)\<close> of the non-zero entries, in row-major
  order. \<^verbatim>\<open>np.min\<close> and \<^verbatim>\<open>np.max\<close> raise \<^verbatim>\<open>ValueError\<close> on an empty array.
\<close>

definition np_where_nonzero :: "image \<Rightarrow> (nat \<times> nat \<times> nat) list" where
  "np_where_nonzero a =
     concat (map (\<lambda>(y, row).
       concat (map (\<lambda>(x, px).
         map (\<lambda>(c, v). (y, x, c)) (filter (\<lambda>(c, v). v \<noteq> 0) (enumerate 0 (channels px))))
         (enumerate 0 row)))
       (enumerate 0 a))"

fun np_min :: "nat list \<Rightarrow> error + nat" where
  "np_min [] = Inl ValueError"
| "np_min (v # vs) = Inr (fold min vs v)"

fun np_max :: "nat list \<Rightarrow> error + nat" where
  "np_max [] = Inl ValueError"
| "np_max (v # vs) = Inr (fold max vs v)"

text \<open>
  \<^verbatim>\<open>a[y0:y1, x0:x1]\<close> for indices within the array: rows \<open>y0\<close> up to but not including
  \<open>y1\<close>, and of each of them columns \<open>x0\<close> up to but not including \<open>x1\<close>.
\<close>

definition slice2 :: "image \<Rightarrow> nat \<Rightarrow> nat \<Rightarrow> nat \<Rightarrow> nat \<Rightarrow> image" where
  "slice2 a y0 y1 x0 x1 = map (\<lambda>row. take (x1 - x0) (drop x0 row)) (take (y1 - y0) (drop y0 a))"

text \<open>
  \<^verbatim>\<open>crop_image\<close> (both notebooks). \<^verbatim>\<open>image.shape\<close> raises \<^verbatim>\<open>AttributeError\<close> when the
  image is \<^verbatim>\<open>None\<close> (a download that \<^verbatim>\<open>cv2.imdecode\<close> could not decode); the
  conversion of the corner list comes next.
\<close>

definition crop_image ::
  "(int \<Rightarrow> bool) \<Rightarrow> ((int \<times> int) list \<Rightarrow> nat \<Rightarrow> nat \<Rightarrow> bool) \<Rightarrow> image option
     \<Rightarrow> (int \<times> int) list \<Rightarrow> error + image"
where
  "crop_image wide covers img points =
     (case img of
        None \<Rightarrow> Inl AttributeError
      | Some a \<Rightarrow>
          if list_ex (\<lambda>(x, y). np_int32_raises wide x \<or> np_int32_raises wide y) points
          then Inl OverflowError
          else
            (let masked = masked_image covers a points;
                 idx = np_where_nonzero masked;
                 y = map fst idx;
                 x = map (fst \<circ> snd) idx
             in case np_min y of Inl e \<Rightarrow> Inl e | Inr y0 \<Rightarrow>
                (case np_max y of Inl e \<Rightarrow> Inl e | Inr y1 \<Rightarrow>
                (case np_min x of Inl e \<Rightarrow> Inl e | Inr x0 \<Rightarrow>
                (case np_max x of Inl e \<Rightarrow> Inl e | Inr x1 \<Rightarrow>
                   Inr (slice2 masked y0 y1 x0 x1))))))"

section \<open>The table builder\<close>

text \<open>
  \<^verbatim>\<open>image_to_html\<close> (both notebooks). The JPEG encoder and the base64 coder belong
  to OpenCV and the standard library; \<open>imencode_b64\<close> stands for
  \<^verbatim>\<open>base64.b64encode(cv2.imencode('.jpg', image)[1]).decode('utf-8')\<close>, which raises
  \<^verbatim>\<open>cv2.error\<close> on a buffer it cannot encode.
\<close>

definition image_to_html ::
  "(image \<Rightarrow> error + string) \<Rightarrow> image \<Rightarrow> nat option \<Rightarrow> error + string"
where
  "image_to_html imencode_b64 img max_width =
     (case imencode_b64 img of
        Inl e \<Rightarrow> Inl e
      | Inr jpg_as_text \<Rightarrow>
          (let image_width =
                 (case max_width of
                    None \<Rightarrow> ''width:100%''
                  | Some w \<Rightarrow> ''max-width:'' @ str_nat w @ ''px'')
           in Inr (''<img style='' @ [CHR 0x22] @ image_width @ [CHR 0x22] @ '' src=''
                   @ [CHR 0x22] @ ''data:image/jpeg;base64,'' @ jpg_as_text @ [CHR 0x22]
                   @ ''/>'')))"

text \<open>The four library functions the table builder reaches, as one value.\<close>

datatype library =
  Library (int_float: "string \<Rightarrow> error + int")
          (int32_wide: "int \<Rightarrow> bool")
          (covers: "(int \<times> int) list \<Rightarrow> nat \<Rightarrow> nat \<Rightarrow> bool")
          (imencode_b64: "image \<Rightarrow> error + string")

text \<open>
  \<^verbatim>\<open>table_data\<close> is a dictionary of five lists, in the order their keys are inserted.
  \<^verbatim>\<open>table_data[key].append(v)\<close> extends the list under \<open>key\<close>.
\<close>

type_synonym table_data = "(string \<times> string list) list"

definition table_data_init :: table_data where
  "table_data_init =
     [(''Image'', []), (''Title'', []), (''Tags'', []), (''Notes'', []), (''Line Color'', [])]"

definition append_to :: "string \<Rightarrow> string \<Rightarrow> table_data \<Rightarrow> table_data" where
  "append_to key v t = map (\<lambda>(k, col). if k = key then (k, col @ [v]) else (k, col)) t"

text \<open>
  The first statements of the loop body (\<^verbatim>\<open># Crop annotation area.\<close>): the image cell
  is the HTML of the cropped region when the selector holds a polygon and the empty
  string otherwise, and it is appended to the column \<^verbatim>\<open>Image\<close>. The parse, the crop and
  the encoder can each raise.
\<close>

definition image_cell :: "library \<Rightarrow> image option \<Rightarrow> annotation \<Rightarrow> error + string" where
  "image_cell L img annotation =
     (if str_in ''<polygon'' (selector annotation) then
        (case extract_polygon_points (int_float L) (selector annotation) of
           Inl e \<Rightarrow> Inl e
         | Inr points \<Rightarrow>
             (case crop_image (int32_wide L) (covers L) img points of
                Inl e \<Rightarrow> Inl e
              | Inr cropped_image \<Rightarrow> image_to_html (imencode_b64 L) cropped_image (Some 250)))
      else Inr [])"

definition append_image ::
  "library \<Rightarrow> image option \<Rightarrow> annotation \<Rightarrow> table_data \<Rightarrow> error + table_data"
where
  "append_image L img annotation t =
     (case image_cell L img annotation of
        Inl e \<Rightarrow> Inl e
      | Inr cell \<Rightarrow> Inr (append_to ''Image'' cell t))"

text \<open>
  The rest of the loop body: title, tags, notes and line colour, each the values joined
  by \<^verbatim>\<open><br>\<close> or the empty string when the field is absent.
\<close>

definition title_cell :: "annotation \<Rightarrow> string" where
  "title_cell annotation =
     (case title (fields annotation) of Some vs \<Rightarrow> join ''<br>'' vs | None \<Rightarrow> [])"

definition tags_cell :: "annotation \<Rightarrow> string" where
  "tags_cell annotation =
     (case tag (fields annotation) of
        Some items \<Rightarrow> join ''<br>'' (map term_label items)
      | None \<Rightarrow> [])"

definition notes_cell :: "annotation \<Rightarrow> string" where
  "notes_cell annotation =
     (case note' (fields annotation) of Some vs \<Rightarrow> join ''<br>'' vs | None \<Rightarrow> [])"

definition line_color_cell :: "annotation \<Rightarrow> string" where
  "line_color_cell annotation =
     (case line_color (fields annotation) of Some vs \<Rightarrow> join ''<br>'' vs | None \<Rightarrow> [])"

definition append_fields :: "annotation \<Rightarrow> table_data \<Rightarrow> table_data" where
  "append_fields annotation t =
     append_to ''Line Color'' (line_color_cell annotation)
       (append_to ''Notes'' (notes_cell annotation)
         (append_to ''Tags'' (tags_cell annotation)
           (append_to ''Title'' (title_cell annotation) t)))"

text \<open>
  The loop of annotation-table.ipynb over annotations of the shape above: one image for
  every annotation, no guard.
\<close>

fun annotation_table_loop ::
  "library \<Rightarrow> image option \<Rightarrow> annotation list \<Rightarrow> table_data \<Rightarrow> error + table_data"
where
  "annotation_table_loop L img [] t = Inr t"
| "annotation_table_loop L img (annotation # rest) t =
     (case append_image L img annotation t of
        Inl e \<Rightarrow> Inl e
      | Inr t' \<Rightarrow> annotation_table_loop L img rest (append_fields annotation t'))"

text \<open>
  The loop of keyword-search.ipynb: \<^verbatim>\<open>images[annotation['image_id']]\<close> raises
  \<^verbatim>\<open>KeyError\<close> when the dictionary has no such key; under a stored \<^verbatim>\<open>None\<close> the whole
  body is skipped (\<^verbatim>\<open>if image is not None:\<close>).
\<close>

fun search_table_loop ::
  "library \<Rightarrow> (nat \<rightharpoonup> image option) \<Rightarrow> annotation list \<Rightarrow> table_data \<Rightarrow> error + table_data"
where
  "search_table_loop L images [] t = Inr t"
| "search_table_loop L images (annotation # rest) t =
     (case images (image_id annotation) of
        None \<Rightarrow> Inl KeyError
      | Some None \<Rightarrow> search_table_loop L images rest t
      | Some (Some img) \<Rightarrow>
          (case append_image L (Some img) annotation t of
             Inl e \<Rightarrow> Inl e
           | Inr t' \<Rightarrow> search_table_loop L images rest (append_fields annotation t')))"

definition search_table ::
  "library \<Rightarrow> (nat \<rightharpoonup> image option) \<Rightarrow> annotation list \<Rightarrow> error + table_data"
where
  "search_table L images results =
     (if length results > 0 then search_table_loop L images results table_data_init
      else Inr table_data_init)"

text \<open>
  \<^verbatim>\<open>pd.DataFrame(table_data)\<close>: the keys become the column names, in their order, and
  row \<open>i\<close> holds entry \<open>i\<close> of every column; lists of different lengths raise
  \<^verbatim>\<open>ValueError\<close>.
\<close>

definition DataFrame :: "table_data \<Rightarrow> error + (string list \<times> string list list)" where
  "DataFrame t =
     (let n = (case t of [] \<Rightarrow> 0 | (k, col) # _ \<Rightarrow> length col)
      in if list_all (\<lambda>(k, col). length col = n) t
         then Inr (map fst t, map (\<lambda>i. map (\<lambda>(k, col). col ! i) t) [0..<n])
         else Inl ValueError)"

section \<open>The fetcher of keyword-search.ipynb\<close>

text \<open>
  A response of \<^verbatim>\<open>requests.get\<close>: its status code and what \<^verbatim>\<open>response.json()\<close>
  returns. The server and the network are parameters: one response per endpoint and
  identifier. keyword-search.ipynb reads a body only under \<^verbatim>\<open>status_code == 200\<close>, where
  it is the listing the API documents. An image set and an annotation set are read
  through \<^verbatim>\<open>['id']\<close> only, so a listing of them is the list of their identifiers.
  \<open>get_content\<close> is the body of the image download, or the \<^verbatim>\<open>RequestException\<close> of a
  download that gets no answer, and \<open>imdecode\<close> is \<^verbatim>\<open>cv2.imdecode\<close>, which returns
  \<^verbatim>\<open>None\<close> for bytes that are no image and raises \<^verbatim>\<open>cv2.error\<close> on an empty buffer.
\<close>

datatype 'a response =
  Response (status_code: nat) (json: 'a)

datatype iaw_api =
  Api (get_image_sets: "nat list response")
      (get_annotation_sets: "nat \<Rightarrow> nat list response")
      (get_annotations: "nat \<Rightarrow> annotation list response")
      (get_image: "nat \<Rightarrow> string response")
      (get_info: "string \<Rightarrow> (nat \<times> nat) response")
      (get_content: "string \<Rightarrow> error + string")
      (imdecode: "string \<Rightarrow> error + image option")

text \<open>\<^verbatim>\<open>load_image_from_url\<close> (both notebooks).\<close>

definition load_image_from_url :: "iaw_api \<Rightarrow> string \<Rightarrow> error + image option" where
  "load_image_from_url api url = and_then (get_content api url) (imdecode api)"

subsection \<open>The traversal\<close>

fun annotations_loop ::
  "(string \<Rightarrow> string) \<Rightarrow> string \<Rightarrow> annotation list \<Rightarrow> annotation list \<Rightarrow> annotation list"
where
  "annotations_loop lower keyword [] results = results"
| "annotations_loop lower keyword (annotation # rest) results =
     annotations_loop lower keyword rest
       (if annotation_contains_keyword lower annotation keyword then results @ [annotation]
        else results)"

fun annotation_sets_loop ::
  "(string \<Rightarrow> string) \<Rightarrow> iaw_api \<Rightarrow> string \<Rightarrow> nat list \<Rightarrow> annotation list \<Rightarrow> annotation list"
where
  "annotation_sets_loop lower api keyword [] results = results"
| "annotation_sets_loop lower api keyword (annotation_set_id # rest) results =
     annotation_sets_loop lower api keyword rest
       (let response = get_annotations api annotation_set_id
        in if status_code response = 200
           then annotations_loop lower keyword (json response) results
           else results)"

fun image_sets_loop ::
  "(string \<Rightarrow> string) \<Rightarrow> iaw_api \<Rightarrow> string \<Rightarrow> nat list \<Rightarrow> annotation list \<Rightarrow> annotation list"
where
  "image_sets_loop lower api keyword [] results = results"
| "image_sets_loop lower api keyword (image_set_id # rest) results =
     image_sets_loop lower api keyword rest
       (let response = get_annotation_sets api image_set_id
        in if status_code response = 200
           then annotation_sets_loop lower api keyword (json response) results
           else results)"

definition keyword_search :: "(string \<Rightarrow> string) \<Rightarrow> iaw_api \<Rightarrow> string \<Rightarrow> annotation list" where
  "keyword_search lower api keyword =
     (let response = get_image_sets api
      in if status_code response = 200
         then image_sets_loop lower api keyword (json response) []
         else [])"

subsection \<open>The image cache\<close>

text \<open>
  An exception of \<^verbatim>\<open>load_image_from_url\<close> ends the loop: nothing catches it.
\<close>

fun images_loop ::
  "iaw_api \<Rightarrow> annotation list \<Rightarrow> (nat \<rightharpoonup> image option) \<Rightarrow> error + (nat \<rightharpoonup> image option)"
where
  "images_loop api [] images = Inr images"
| "images_loop api (annotation # rest) images =
     (let iid = image_id annotation
      in if images iid = None then
           (let response = get_image api iid
            in if status_code response = 200 then
                 (let image_iiif_base_url = json response;
                      response = get_info api image_iiif_base_url
                  in if status_code response = 200 then
                       (let (image_width, image_height) = json response;
                            image_url = image_iiif_base_url @ ''/full/''
                              @ str_nat image_width @ '','' @ str_nat image_height
                              @ ''/0/default.jpg''
                        in case load_image_from_url api image_url of
                             Inl e \<Rightarrow> Inl e
                           | Inr loaded \<Rightarrow> images_loop api rest (images(iid \<mapsto> loaded)))
                     else images_loop api rest images)
               else images_loop api rest images)
         else images_loop api rest images)"

definition load_images ::
  "iaw_api \<Rightarrow> annotation list \<Rightarrow> error + (nat \<rightharpoonup> image option)"
where
  "load_images api results =
     (if length results > 0 then images_loop api results Map.empty else Inr Map.empty)"

definition keyword_search_table ::
  "(string \<Rightarrow> string) \<Rightarrow> library \<Rightarrow> iaw_api \<Rightarrow> string \<Rightarrow> error + table_data"
where
  "keyword_search_table lower L api keyword =
     (let results = keyword_search lower api keyword
      in case load_images api results of
           Inl e \<Rightarrow> Inl e
         | Inr images \<Rightarrow> search_table L images results)"

section \<open>annotation-table.ipynb on the bodies as they arrive\<close>

text \<open>
  annotation-table.ipynb reads every body whatever the status, so its cells run on
  whatever JSON value the server sent. A JSON value is a Python value: \<^verbatim>\<open>None\<close>, a
  Boolean, a number (given by its literal: no cell computes with one), a string, a list,
  or a dictionary given by its entries in order, with distinct keys.
\<close>

datatype json =
    JNull | JBool bool | JNum string | JStr string | JList "json list"
  | JDict "(string \<times> json) list"

text \<open>
  \<^verbatim>\<open>requests.get\<close> raises a \<^verbatim>\<open>RequestException\<close> when the request gets no answer
  or its URL is malformed; of an answer, \<^verbatim>\<open>response.json()\<close> raises
  \<^verbatim>\<open>JSONDecodeError\<close> when the body is no JSON (\<open>None\<close> here). The line between the two
  prints the status and the reason and nothing depends on it.
\<close>

type_synonym request = "error + json option response"

definition response_json :: "request \<Rightarrow> error + json" where
  "response_json request =
     and_then request (\<lambda>response.
       case json response of None \<Rightarrow> Inl JSONDecodeError | Some v \<Rightarrow> Inr v)"

text \<open>
  \<^verbatim>\<open>obj[key]\<close> with a string key: a dictionary without the key raises \<^verbatim>\<open>KeyError\<close>; a
  string or a list takes integer indices only and the other values cannot be indexed at
  all (\<^verbatim>\<open>TypeError\<close>).
\<close>

fun getitem :: "json \<Rightarrow> string \<Rightarrow> error + json" where
  "getitem (JDict entries) key =
     (case map_of entries key of None \<Rightarrow> Inl KeyError | Some v \<Rightarrow> Inr v)"
| "getitem _ key = Inl TypeError"

text \<open>
  \<^verbatim>\<open>obj[0]\<close>: the first element of a list or the first character of a string
  (\<^verbatim>\<open>IndexError\<close> when there is none); a dictionary of a JSON body has string keys only,
  so \<open>0\<close> is no key of it (\<^verbatim>\<open>KeyError\<close>).
\<close>

fun getitem0 :: "json \<Rightarrow> error + json" where
  "getitem0 (JList xs) = (case xs of [] \<Rightarrow> Inl IndexError | x # _ \<Rightarrow> Inr x)"
| "getitem0 (JStr s) = (case py_chars s of [] \<Rightarrow> Inl IndexError | c # _ \<Rightarrow> Inr (JStr c))"
| "getitem0 (JDict entries) = Inl KeyError"
| "getitem0 _ = Inl TypeError"

text \<open>
  \<^verbatim>\<open>for x in obj\<close>: the elements of a list, the keys of a dictionary, the characters of
  a string; the other values are not iterable.
\<close>

fun py_iter :: "json \<Rightarrow> error + json list" where
  "py_iter (JList xs) = Inr xs"
| "py_iter (JDict entries) = Inr (map (\<lambda>(k, v). JStr k) entries)"
| "py_iter (JStr s) = Inr (map JStr (py_chars s))"
| "py_iter _ = Inl TypeError"

text \<open>
  \<^verbatim>\<open>key in obj\<close> with a string on the left: a substring test on a string, an element
  test on a list, a key test on a dictionary; the other values are not iterable.
\<close>

fun contains_str :: "string \<Rightarrow> json \<Rightarrow> error + bool" where
  "contains_str key (JStr s) = Inr (str_in key s)"
| "contains_str key (JList xs) = Inr (JStr key \<in> set xs)"
| "contains_str key (JDict entries) = Inr (key \<in> set (map fst entries))"
| "contains_str key _ = Inl TypeError"

text \<open>
  \<^verbatim>\<open>sep.join(obj)\<close>: every item of the iterable must be a string.
\<close>

fun str_items :: "json list \<Rightarrow> error + string list" where
  "str_items [] = Inr []"
| "str_items (JStr s # rest) = and_then (str_items rest) (\<lambda>ss. Inr (s # ss))"
| "str_items (_ # rest) = Inl TypeError"

definition py_join :: "string \<Rightarrow> json \<Rightarrow> error + string" where
  "py_join sep obj =
     and_then (py_iter obj) (\<lambda>items.
     and_then (str_items items) (\<lambda>ss. Inr (join sep ss)))"

subsection \<open>The table loop\<close>

text \<open>
  The loop body of annotation-table.ipynb, statement by statement. A selector that
  passes the test \<^verbatim>\<open>'<polygon' in selector\<close> without being a string (a list or a
  dictionary) has no method \<^verbatim>\<open>split\<close>: \<^verbatim>\<open>AttributeError\<close>.
\<close>

definition json_image_cell :: "library \<Rightarrow> image option \<Rightarrow> json \<Rightarrow> error + string" where
  "json_image_cell L img annotation =
     and_then (getitem annotation ''target'') (\<lambda>target.
     and_then (getitem target ''selector'') (\<lambda>target_selector.
     and_then (getitem target_selector ''value'') (\<lambda>sel.
     and_then (contains_str ''<polygon'' sel) (\<lambda>has_polygon.
       if has_polygon then
         (case sel of
            JStr s \<Rightarrow>
              (case extract_polygon_points (int_float L) s of
                 Inl e \<Rightarrow> Inl e
               | Inr points \<Rightarrow>
                   (case crop_image (int32_wide L) (covers L) img points of
                      Inl e \<Rightarrow> Inl e
                    | Inr cropped_image \<Rightarrow>
                        image_to_html (imencode_b64 L) cropped_image (Some 250)))
          | _ \<Rightarrow> Inl AttributeError)
       else Inr []))))"

definition json_values :: "json \<Rightarrow> string \<Rightarrow> error + json" where
  "json_values flds name =
     and_then (getitem flds name) (\<lambda>field.
     and_then (getitem field ''en'') (\<lambda>en. getitem en ''values''))"

definition json_text_cell :: "json \<Rightarrow> string \<Rightarrow> error + string" where
  "json_text_cell flds name =
     and_then (contains_str name flds) (\<lambda>present.
       if present then and_then (json_values flds name) (py_join ''<br>'') else Inr [])"

fun term_labels :: "json list \<Rightarrow> error + json list" where
  "term_labels [] = Inr []"
| "term_labels (item # rest) =
     and_then (getitem item ''term_label'') (\<lambda>label.
     and_then (term_labels rest) (\<lambda>labels. Inr (label # labels)))"

definition json_tags_cell :: "json \<Rightarrow> error + string" where
  "json_tags_cell flds =
     and_then (contains_str ''tag'' flds) (\<lambda>present.
       if present then
         and_then (json_values flds ''tag'') (\<lambda>vs.
         and_then (py_iter vs) (\<lambda>items.
         and_then (term_labels items) (\<lambda>labels. py_join ''<br>'' (JList labels))))
       else Inr [])"

fun json_table_loop ::
  "library \<Rightarrow> image option \<Rightarrow> json list \<Rightarrow> table_data \<Rightarrow> error + table_data"
where
  "json_table_loop L img [] t = Inr t"
| "json_table_loop L img (annotation # rest) t =
     and_then (json_image_cell L img annotation) (\<lambda>image_c.
     and_then (getitem annotation ''fields'') (\<lambda>flds.
     and_then (json_text_cell flds ''title'') (\<lambda>title_c.
     and_then (json_tags_cell flds) (\<lambda>tags_c.
     and_then (json_text_cell flds ''note'') (\<lambda>notes_c.
     and_then (json_text_cell flds ''line_color'') (\<lambda>line_color_c.
       json_table_loop L img rest
         (append_to ''Line Color'' line_color_c
           (append_to ''Notes'' notes_c
             (append_to ''Tags'' tags_c
               (append_to ''Title'' title_c
                 (append_to ''Image'' image_c t)))))))))))"

text \<open>
  The annotations fetch and the table cell: \<^verbatim>\<open>annotations = response.json()\<close>, then
  the loop over whatever \<^verbatim>\<open>annotations\<close> is.
\<close>

definition annotation_table ::
  "library \<Rightarrow> image option \<Rightarrow> request \<Rightarrow> error + table_data"
where
  "annotation_table L img request =
     and_then (response_json request) (\<lambda>annotations.
     and_then (py_iter annotations) (\<lambda>items.
       json_table_loop L img items table_data_init))"

subsection \<open>The cells before the table\<close>

text \<open>
  The six requests of annotation-table.ipynb. The identifiers 11, 30 and 25 are written
  into the URLs, so the three listings of collections, image sets and annotation sets
  are only parsed and printed. The \<^verbatim>\<open>info.json\<close> request goes to the URL formatted
  from \<^verbatim>\<open>image_iiif_base_url\<close>, and \<open>nb_load_image\<close> is \<^verbatim>\<open>load_image_from_url\<close> at
  the URL formatted from that value, the width and the height: the answers are
  functions of those values.
\<close>

datatype notebook_api =
  NotebookApi (nb_collections: request)
              (nb_image_sets: request)
              (nb_images: request)
              (nb_info: "json \<Rightarrow> request")
              (nb_load_image: "json \<Rightarrow> json \<Rightarrow> json \<Rightarrow> error + image option")
              (nb_annotation_sets: request)
              (nb_annotations: request)

text \<open>
  A listing cell: \<^verbatim>\<open>x = response.json()\<close> and \<^verbatim>\<open>print(json.dumps(x, indent=2))\<close>.
\<close>

definition listing_cell :: "request \<Rightarrow> error + unit" where
  "listing_cell request = and_then (response_json request) (\<lambda>listing. Inr ())"

text \<open>
  The cells from the images listing to the display of the full image:
  \<^verbatim>\<open>images[0]['iiif_url']\<close>, the \<^verbatim>\<open>info.json\<close> request, \<^verbatim>\<open>image_info['width']\<close> and
  \<^verbatim>\<open>image_info['height']\<close>, the download, and \<^verbatim>\<open>image_to_html(image)\<close>, where
  \<^verbatim>\<open>cv2.imencode\<close> raises \<^verbatim>\<open>cv2.error\<close> on \<^verbatim>\<open>None\<close>.
\<close>

definition full_image_cells :: "library \<Rightarrow> notebook_api \<Rightarrow> error + image option" where
  "full_image_cells L api =
     and_then (response_json (nb_images api)) (\<lambda>image_list.
     and_then (getitem0 image_list) (\<lambda>image_data.
     and_then (getitem image_data ''iiif_url'') (\<lambda>image_iiif_base_url.
     and_then (response_json (nb_info api image_iiif_base_url)) (\<lambda>image_info.
     and_then (getitem image_info ''width'') (\<lambda>image_width.
     and_then (getitem image_info ''height'') (\<lambda>image_height.
     and_then (nb_load_image api image_iiif_base_url image_width image_height) (\<lambda>img.
     and_then (case img of
                 None \<Rightarrow> Inl CvError
               | Some a \<Rightarrow> image_to_html (imencode_b64 L) a None) (\<lambda>html.
       Inr img))))))))"

text \<open>The notebook, cell after cell; the first exception ends the run.\<close>

definition annotation_table_notebook :: "library \<Rightarrow> notebook_api \<Rightarrow> error + table_data" where
  "annotation_table_notebook L api =
     and_then (listing_cell (nb_collections api)) (\<lambda>collections.
     and_then (listing_cell (nb_image_sets api)) (\<lambda>image_sets.
     and_then (full_image_cells L api) (\<lambda>img.
     and_then (listing_cell (nb_annotation_sets api)) (\<lambda>annotation_sets.
       annotation_table L img (nb_annotations api)))))"

subsection \<open>Annotations of the documented shape as JSON\<close>

text \<open>
  The JSON object of an annotation of the shape of the keyword search: the paths the
  notebooks read, with an absent field left out of \<^verbatim>\<open>fields\<close>.
\<close>

definition json_of_values :: "string list \<Rightarrow> json" where
  "json_of_values vs = JDict [(''en'', JDict [(''values'', JList (map JStr vs))])]"

definition json_of_tags :: "tag_value list \<Rightarrow> json" where
  "json_of_tags ts =
     JDict [(''en'', JDict [(''values'',
       JList (map (\<lambda>t. JDict [(''term_label'', JStr (term_label t))]) ts))])]"

definition json_of_field :: "string \<Rightarrow> json option \<Rightarrow> (string \<times> json) list" where
  "json_of_field name v = (case v of None \<Rightarrow> [] | Some j \<Rightarrow> [(name, j)])"

definition json_of_fields :: "annotation_fields \<Rightarrow> json" where
  "json_of_fields fs =
     JDict (json_of_field ''title'' (map_option json_of_values (title fs))
          @ json_of_field ''tag'' (map_option json_of_tags (tag fs))
          @ json_of_field ''note'' (map_option json_of_values (note' fs))
          @ json_of_field ''line_color'' (map_option json_of_values (line_color fs)))"

definition json_of_annotation :: "annotation \<Rightarrow> json" where
  "json_of_annotation a =
     JDict [(''image_id'', JNum (str_nat (image_id a))),
            (''target'', JDict [(''selector'', JDict [(''value'', JStr (selector a))])]),
            (''fields'', json_of_fields (fields a))]"

section \<open>Properties of the string operations\<close>

lemma and_then_Inr [simp]: "and_then (Inr x) f = f x"
  by (simp add: and_then_def)

lemma and_then_Inl [simp]: "and_then (Inl e) f = Inl e"
  by (simp add: and_then_def)

lemma str_in_iff: "str_in k s \<longleftrightarrow> (\<exists>p q. s = p @ k @ q)"
proof (induction s)
  case Nil
  then show ?case by auto
next
  case (Cons c cs)
  show ?case
  proof
    assume "str_in k (c # cs)"
    then consider "prefix k (c # cs)" | "str_in k cs" by auto
    then show "\<exists>p q. c # cs = p @ k @ q"
    proof cases
      case 1
      then obtain q where "c # cs = k @ q" by (auto simp: prefix_def)
      then have "c # cs = [] @ k @ q" by simp
      then show ?thesis by blast
    next
      case 2
      with Cons.IH obtain p q where "cs = p @ k @ q" by blast
      then have "c # cs = (c # p) @ k @ q" by simp
      then show ?thesis by blast
    qed
  next
    assume "\<exists>p q. c # cs = p @ k @ q"
    then obtain p q where pq: "c # cs = p @ k @ q" by blast
    show "str_in k (c # cs)"
    proof (cases p)
      case Nil
      with pq have "prefix k (c # cs)" by (simp add: prefix_def)
      then show ?thesis by simp
    next
      case (Cons a p')
      with pq have "cs = p' @ k @ q" by simp
      with Cons.IH have "str_in k cs" by blast
      then show ?thesis by simp
    qed
  qed
qed

lemma str_in_empty: "str_in [] s"
  by (cases s) simp_all

lemma split_str_not_Nil: "split_str c s \<noteq> []"
  by (induction s) (auto split: list.splits)

lemma split_str_no_sep: "c \<notin> set s \<Longrightarrow> split_str c s = [s]"
  by (induction s) auto

lemma split_str_append_sep: "c \<notin> set a \<Longrightarrow> split_str c (a @ c # b) = a # split_str c b"
  by (induction a) auto

lemma split_str_join_Cons:
  "\<forall>t \<in> set (t0 # ts). c \<notin> set t \<Longrightarrow> split_str c (join [c] (t0 # ts)) = t0 # ts"
proof (induction ts arbitrary: t0)
  case Nil
  then show ?case by (simp add: split_str_no_sep)
next
  case (Cons t1 ts)
  then have "split_str c (join [c] (t1 # ts)) = t1 # ts" by simp
  moreover have "c \<notin> set t0" using Cons.prems by simp
  ultimately show ?case by (simp add: split_str_append_sep)
qed

lemma split_str_join:
  "ts \<noteq> [] \<Longrightarrow> \<forall>t \<in> set ts. c \<notin> set t \<Longrightarrow> split_str c (join [c] ts) = ts"
  by (cases ts) (simp_all only: split_str_join_Cons list.simps)

lemma set_join_subset: "set (join sep ts) \<subseteq> set sep \<union> \<Union> (set ` set ts)"
  by (induction sep ts rule: join.induct) auto

lemma split_str_pair:
  "CHR '','' \<notin> set x \<Longrightarrow> CHR '','' \<notin> set y \<Longrightarrow> split_str CHR '','' (x @ '','' @ y) = [x, y]"
  by (simp add: split_str_append_sep split_str_no_sep)

section \<open>Properties of the keyword filter\<close>

lemma title_loop_iff:
  "title_loop lower keyword vs \<longleftrightarrow> (\<exists>v \<in> set vs. str_in (lower keyword) (lower v))"
  by (induction vs) auto

lemma tag_loop_iff:
  "tag_loop lower keyword ts \<longleftrightarrow>
     (\<exists>t \<in> set ts. str_in (lower keyword) (lower (term_label t)))"
  by (induction ts) auto

lemma annotation_contains_keyword_iff:
  "annotation_contains_keyword lower a keyword \<longleftrightarrow>
     (\<exists>v \<in> set (case title (fields a) of None \<Rightarrow> [] | Some vs \<Rightarrow> vs).
         \<exists>p q. lower v = p @ lower keyword @ q)
   \<or> (\<exists>t \<in> set (case tag (fields a) of None \<Rightarrow> [] | Some ts \<Rightarrow> ts).
         \<exists>p q. lower (term_label t) = p @ lower keyword @ q)"
  by (auto simp: annotation_contains_keyword_def Let_def title_loop_iff tag_loop_iff str_in_iff
           split: option.splits)

lemma title_loop_first_hit:
  "str_in (lower keyword) (lower v) \<Longrightarrow> title_loop lower keyword (pre @ v # post)"
  by (induction pre) auto

text \<open>
  Claim C4. Whatever the runtime's \<^verbatim>\<open>str.lower()\<close> is, \<^verbatim>\<open>annotation_contains_keyword\<close>
  returns \<open>True\<close> exactly when the lowercased keyword is a substring of the lowercase of
  some title value (when the title field exists) or of some tag's \<^verbatim>\<open>term_label\<close> (when
  the tag field exists). The title values come first and the first hit decides: once a
  title value contains the keyword the result is \<open>True\<close> whatever title values follow it
  and whatever the tag field holds. An annotation with neither field matches no keyword.
  With \<^verbatim>\<open>'Red Robe'.lower() == 'red robe'\<close>, \<^verbatim>\<open>'robe'.lower() == 'robe'\<close> and
  \<^verbatim>\<open>'ROBE'.lower() == 'robe'\<close>, as Python has them, a title value \<^verbatim>\<open>Red Robe\<close> matches
  the keywords \<^verbatim>\<open>robe\<close> and \<^verbatim>\<open>ROBE\<close>; and with \<^verbatim>\<open>'Halo'.lower() == 'halo'\<close> an annotation
  whose only title value is \<^verbatim>\<open>Halo\<close> and whose only tag is \<^verbatim>\<open>Nimbus\<close>
  (\<^verbatim>\<open>'Nimbus'.lower() == 'nimbus'\<close>) does not match \<^verbatim>\<open>robe\<close>. Two keywords with the same
  lowercase match the same annotations.
\<close>

theorem annotation_contains_keyword_spec:
  "(annotation_contains_keyword lower a keyword \<longleftrightarrow>
       (\<exists>v \<in> set (case title (fields a) of None \<Rightarrow> [] | Some vs \<Rightarrow> vs).
           \<exists>p q. lower v = p @ lower keyword @ q)
     \<or> (\<exists>t \<in> set (case tag (fields a) of None \<Rightarrow> [] | Some ts \<Rightarrow> ts).
           \<exists>p q. lower (term_label t) = p @ lower keyword @ q))
   \<and> ((\<exists>p q. lower v = p @ lower keyword @ q) \<longrightarrow>
        annotation_contains_keyword lower
          (Annotation i s \<lparr>title = Some (pre @ v # post), tag = tg, note' = n, line_color = c\<rparr>)
          keyword)
   \<and> (title (fields a) = None \<and> tag (fields a) = None \<longrightarrow>
        \<not> annotation_contains_keyword lower a keyword)
   \<and> (lower ''Red Robe'' = ''red robe'' \<and> lower ''robe'' = ''robe'' \<longrightarrow>
        annotation_contains_keyword lower
          (Annotation i s \<lparr>title = Some [''Red Robe''], tag = tg, note' = n, line_color = c\<rparr>)
          ''robe'')
   \<and> (lower ''Red Robe'' = ''red robe'' \<and> lower ''ROBE'' = ''robe'' \<longrightarrow>
        annotation_contains_keyword lower
          (Annotation i s \<lparr>title = Some [''Red Robe''], tag = tg, note' = n, line_color = c\<rparr>)
          ''ROBE'')
   \<and> (lower ''Halo'' = ''halo'' \<and> lower ''Nimbus'' = ''nimbus'' \<and> lower ''robe'' = ''robe'' \<longrightarrow>
        \<not> annotation_contains_keyword lower
            (Annotation i s \<lparr>title = Some [''Halo''], tag = Some [\<lparr>term_label = ''Nimbus''\<rparr>],
               note' = n, line_color = c\<rparr>)
            ''robe'')
   \<and> (lower keyword = lower keyword' \<longrightarrow>
        annotation_contains_keyword lower a keyword
          = annotation_contains_keyword lower a keyword')"
proof (intro conjI)
  show "annotation_contains_keyword lower a keyword \<longleftrightarrow>
       (\<exists>v \<in> set (case title (fields a) of None \<Rightarrow> [] | Some vs \<Rightarrow> vs).
           \<exists>p q. lower v = p @ lower keyword @ q)
     \<or> (\<exists>t \<in> set (case tag (fields a) of None \<Rightarrow> [] | Some ts \<Rightarrow> ts).
           \<exists>p q. lower (term_label t) = p @ lower keyword @ q)"
    by (rule annotation_contains_keyword_iff)
  show "(\<exists>p q. lower v = p @ lower keyword @ q) \<longrightarrow>
        annotation_contains_keyword lower
          (Annotation i s \<lparr>title = Some (pre @ v # post), tag = tg, note' = n, line_color = c\<rparr>)
          keyword"
    by (simp add: annotation_contains_keyword_def Let_def title_loop_first_hit str_in_iff)
  show "title (fields a) = None \<and> tag (fields a) = None \<longrightarrow>
        \<not> annotation_contains_keyword lower a keyword"
    by (simp add: annotation_contains_keyword_def Let_def)
  show "lower ''Red Robe'' = ''red robe'' \<and> lower ''robe'' = ''robe'' \<longrightarrow>
        annotation_contains_keyword lower
          (Annotation i s \<lparr>title = Some [''Red Robe''], tag = tg, note' = n, line_color = c\<rparr>)
          ''robe''"
    by (simp add: annotation_contains_keyword_def Let_def)
  show "lower ''Red Robe'' = ''red robe'' \<and> lower ''ROBE'' = ''robe'' \<longrightarrow>
        annotation_contains_keyword lower
          (Annotation i s \<lparr>title = Some [''Red Robe''], tag = tg, note' = n, line_color = c\<rparr>)
          ''ROBE''"
    by (simp add: annotation_contains_keyword_def Let_def)
  show "lower ''Halo'' = ''halo'' \<and> lower ''Nimbus'' = ''nimbus'' \<and> lower ''robe'' = ''robe'' \<longrightarrow>
        \<not> annotation_contains_keyword lower
            (Annotation i s \<lparr>title = Some [''Halo''], tag = Some [\<lparr>term_label = ''Nimbus''\<rparr>],
               note' = n, line_color = c\<rparr>)
            ''robe''"
    by (simp add: annotation_contains_keyword_def Let_def)
  show "lower keyword = lower keyword' \<longrightarrow>
        annotation_contains_keyword lower a keyword
          = annotation_contains_keyword lower a keyword'"
    by (simp add: annotation_contains_keyword_iff)
qed

theorem annotation_contains_keyword_spec_witness:
  "annotation_contains_keyword
     (map (\<lambda>c. case map_of (zip ''RBOEHN'' ''rboehn'') c of None \<Rightarrow> c | Some l \<Rightarrow> l))
     (Annotation 7 [] \<lparr>title = Some [''Seated Buddha'', ''Red Robe'', ''Halo''],
        tag = Some [\<lparr>term_label = ''Drapery''\<rparr>], note' = None, line_color = None\<rparr>)
     ''ROBE''
   \<and> annotation_contains_keyword
       (map (\<lambda>c. case map_of (zip ''RBOEHN'' ''rboehn'') c of None \<Rightarrow> c | Some l \<Rightarrow> l))
       (Annotation 7 [] \<lparr>title = Some [''Red Robe''], tag = None, note' = None,
          line_color = None\<rparr>)
       ''robe''
   \<and> \<not> annotation_contains_keyword
         (map (\<lambda>c. case map_of (zip ''RBOEHN'' ''rboehn'') c of None \<Rightarrow> c | Some l \<Rightarrow> l))
         (Annotation 7 [] \<lparr>title = Some [''Halo''], tag = Some [\<lparr>term_label = ''Nimbus''\<rparr>],
            note' = None, line_color = None\<rparr>)
         ''robe''
   \<and> \<not> annotation_contains_keyword
         (map (\<lambda>c. case map_of (zip ''RBOEHN'' ''rboehn'') c of None \<Rightarrow> c | Some l \<Rightarrow> l))
         (Annotation 7 [] \<lparr>title = None, tag = None, note' = Some [''robe''],
            line_color = None\<rparr>)
         ''robe''"
proof -
  let ?lw = "map (\<lambda>c. case map_of (zip ''RBOEHN'' ''rboehn'') c of None \<Rightarrow> c | Some l \<Rightarrow> l)"
  let ?none = "Annotation 7 [] \<lparr>title = None, tag = None, note' = Some [''robe''],
    line_color = None\<rparr>"
  have l1: "?lw ''Red Robe'' = ''red robe''" by simp
  have l2: "?lw ''robe'' = ''robe''" by simp
  have l3: "?lw ''ROBE'' = ''robe''" by simp
  have l4: "?lw ''Halo'' = ''halo''" by simp
  have l5: "?lw ''Nimbus'' = ''nimbus''" by simp
  have hit: "\<exists>p q. ?lw ''Red Robe'' = p @ ?lw ''ROBE'' @ q"
  proof -
    have "str_in ''robe'' ''red robe''" by simp
    then have "\<exists>p q. ''red robe'' = p @ ''robe'' @ q" by (simp only: str_in_iff)
    then show ?thesis by (simp only: l1 l3)
  qed
  have none: "title (fields ?none) = None \<and> tag (fields ?none) = None"
    by simp
  note spec1 = annotation_contains_keyword_spec [where lower = ?lw and a = ?none
      and keyword = "''ROBE''" and v = "''Red Robe''" and i = 7 and s = "[]"
      and pre = "[''Seated Buddha'']" and post = "[''Halo'']"
      and tg = "Some [\<lparr>term_label = ''Drapery''\<rparr>]" and n = None and c = None]
  note spec2 = annotation_contains_keyword_spec [where lower = ?lw and a = ?none
      and keyword = "''robe''" and i = 7 and s = "[]" and tg = None and n = None and c = None]
  note spec3 = annotation_contains_keyword_spec [where lower = ?lw and a = ?none
      and keyword = "''robe''" and i = 7 and s = "[]" and n = None and c = None]
  have a: "annotation_contains_keyword ?lw
     (Annotation 7 [] \<lparr>title = Some ([''Seated Buddha''] @ ''Red Robe'' # [''Halo'']),
        tag = Some [\<lparr>term_label = ''Drapery''\<rparr>], note' = None, line_color = None\<rparr>)
     ''ROBE''"
    using spec1 [THEN conjunct2, THEN conjunct1] hit by (rule mp)
  have b: "annotation_contains_keyword ?lw
       (Annotation 7 [] \<lparr>title = Some [''Red Robe''], tag = None, note' = None,
          line_color = None\<rparr>) ''robe''"
    using spec2 [THEN conjunct2, THEN conjunct2, THEN conjunct2, THEN conjunct1] l1 l2
    by (rule mp [OF _ conjI])
  have c: "\<not> annotation_contains_keyword ?lw
         (Annotation 7 [] \<lparr>title = Some [''Halo''], tag = Some [\<lparr>term_label = ''Nimbus''\<rparr>],
            note' = None, line_color = None\<rparr>) ''robe''"
    using spec3 [THEN conjunct2, THEN conjunct2, THEN conjunct2, THEN conjunct2, THEN conjunct2,
        THEN conjunct1] conjI [OF l4 conjI [OF l5 l2]]
    by (rule mp)
  have d: "\<not> annotation_contains_keyword ?lw ?none ''robe''"
    using spec2 [THEN conjunct2, THEN conjunct2, THEN conjunct1] none by (rule mp)
  from a have a': "annotation_contains_keyword ?lw
     (Annotation 7 [] \<lparr>title = Some [''Seated Buddha'', ''Red Robe'', ''Halo''],
        tag = Some [\<lparr>term_label = ''Drapery''\<rparr>], note' = None, line_color = None\<rparr>)
     ''ROBE''"
    by (simp only: append_Cons append_Nil)
  show ?thesis
    using a' b c d by (intro conjI)
qed

text \<open>
  Claim C10. For the empty keyword \<^verbatim>\<open>annotation_contains_keyword\<close> returns \<open>True\<close>
  exactly for the annotations that have a title field with at least one value or a tag
  field with at least one value: the lowercase of the empty string is the empty string,
  and the empty string is a substring of every string. It returns \<open>False\<close> only when each
  of the two fields is absent or has no value.
\<close>

theorem annotation_contains_keyword_empty_keyword:
  "lower [] = [] \<Longrightarrow>
   annotation_contains_keyword lower a [] \<longleftrightarrow>
     (\<exists>vs. title (fields a) = Some vs \<and> vs \<noteq> [])
   \<or> (\<exists>ts. tag (fields a) = Some ts \<and> ts \<noteq> [])"
proof -
  assume e: "lower [] = []"
  have t: "title_loop lower [] vs \<longleftrightarrow> vs \<noteq> []" for vs
    by (cases vs) (simp_all add: e str_in_empty)
  have g: "tag_loop lower [] ts \<longleftrightarrow> ts \<noteq> []" for ts
    by (cases ts) (simp_all add: e str_in_empty)
  show ?thesis
    by (auto simp: annotation_contains_keyword_def Let_def t g split: option.splits)
qed

theorem annotation_contains_keyword_empty_keyword_witness:
  "annotation_contains_keyword
     (map (\<lambda>c. if c = CHR ''H'' then CHR ''h'' else c))
     (Annotation 7 [] \<lparr>title = Some [''Halo''], tag = None, note' = None, line_color = None\<rparr>)
     []
   \<and> \<not> annotation_contains_keyword
         (map (\<lambda>c. if c = CHR ''H'' then CHR ''h'' else c))
         (Annotation 7 [] \<lparr>title = Some [], tag = None, note' = Some [''Halo''],
            line_color = None\<rparr>)
         []"
  using annotation_contains_keyword_empty_keyword
      [of "map (\<lambda>c. if c = CHR ''H'' then CHR ''h'' else c)"
          "Annotation 7 [] \<lparr>title = Some [''Halo''], tag = None, note' = None,
             line_color = None\<rparr>"]
    annotation_contains_keyword_empty_keyword
      [of "map (\<lambda>c. if c = CHR ''H'' then CHR ''h'' else c)"
          "Annotation 7 [] \<lparr>title = Some [], tag = None, note' = Some [''Halo''],
             line_color = None\<rparr>"]
  by simp

section \<open>Properties of the polygon extractor\<close>

lemma points_loop_Inr_iff:
  "points_loop f toks acc = Inr ps \<longleftrightarrow>
     (\<exists>qs. ps = acc @ qs
         \<and> list_all2 (\<lambda>t p. \<exists>x y. split_str CHR '','' t = [x, y]
                                \<and> f x = Inr (fst p) \<and> f y = Inr (snd p)) toks qs)"
proof (induction toks arbitrary: acc ps)
  case Nil
  then show ?case by auto
next
  case (Cons t toks)
  show ?case
    apply (simp add: Cons.IH list_all2_Cons1 split: list.splits sum.splits)
    apply auto
    done
qed

lemma points_loop_append:
  "points_loop f (xs @ ys) acc =
     (case points_loop f xs acc of Inl e \<Rightarrow> Inl e | Inr acc' \<Rightarrow> points_loop f ys acc')"
  by (induction xs arbitrary: acc) (auto split: list.splits sum.splits)

lemma points_loop_not_ParseError:
  "\<forall>s. f s \<noteq> Inl ParseError \<Longrightarrow> points_loop f toks acc \<noteq> Inl ParseError"
  by (induction toks arbitrary: acc) (auto split: list.splits sum.splits)

lemma extract_polygon_points_quoted:
  assumes "CHR 0x22 \<notin> set head" and "CHR 0x22 \<notin> set v"
  shows "extract_polygon_points f (head @ [CHR 0x22] @ v @ [CHR 0x22] @ rest)
         = points_loop f (split_str CHR '' '' v) []"
proof -
  have "split_str (CHR 0x22) (head @ [CHR 0x22] @ v @ [CHR 0x22] @ rest)
        = head # v # split_str (CHR 0x22) rest"
    using assms split_str_append_sep [of "CHR 0x22" head "v @ [CHR 0x22] @ rest"]
      split_str_append_sep [of "CHR 0x22" v rest]
    by simp
  then show ?thesis
    by (simp add: extract_polygon_points_def)
qed

lemma extract_polygon_points_valid:
  assumes head: "CHR 0x22 \<notin> set head"
    and ne: "coords \<noteq> []"
    and wf: "\<forall>(x, y) \<in> set coords.
               set (x @ y) \<inter> {CHR '','', CHR '' '', CHR 0x22} = {}
               \<and> f x = Inr (g x) \<and> f y = Inr (g y)"
  shows "extract_polygon_points f
           (head @ [CHR 0x22] @ join '' '' (map (\<lambda>(x, y). x @ '','' @ y) coords)
              @ [CHR 0x22] @ rest)
         = Inr (map (\<lambda>(x, y). (g x, g y)) coords)"
    and "split_str CHR '' '' (join '' '' (map (\<lambda>(x, y). x @ '','' @ y) coords))
         = map (\<lambda>(x, y). x @ '','' @ y) coords"
proof -
  let ?toks = "map (\<lambda>(x, y). x @ '','' @ y) coords"
  let ?v = "join '' '' ?toks"
  have tok_chars: "\<forall>t \<in> set ?toks. CHR '' '' \<notin> set t \<and> CHR 0x22 \<notin> set t"
    using wf by auto
  have "CHR 0x22 \<notin> set ?v"
    using set_join_subset [of "'' ''" ?toks] tok_chars by auto
  then have e1: "extract_polygon_points f (head @ [CHR 0x22] @ ?v @ [CHR 0x22] @ rest)
        = points_loop f (split_str CHR '' '' ?v) []"
    using head by (rule extract_polygon_points_quoted [rotated])
  show e2: "split_str CHR '' '' ?v = ?toks"
    using ne tok_chars by (intro split_str_join) auto
  have "list_all2 (\<lambda>t p. \<exists>x y. split_str CHR '','' t = [x, y]
            \<and> f x = Inr (fst p) \<and> f y = Inr (snd p))
          ?toks (map (\<lambda>(x, y). (g x, g y)) coords)"
    unfolding list_all2_map1 list_all2_map2
  proof (rule list_all2_same [THEN iffD2], clarify)
    fix x y assume "(x, y) \<in> set coords"
    with wf have c: "CHR '','' \<notin> set x" "CHR '','' \<notin> set y"
      and f: "f x = Inr (g x)" "f y = Inr (g y)"
      by auto
    show "\<exists>xa ya. split_str CHR '','' (x @ '','' @ y) = [xa, ya]
            \<and> f xa = Inr (fst (g x, g y)) \<and> f ya = Inr (snd (g x, g y))"
      using split_str_pair [OF c] f by simp
  qed
  then have "points_loop f ?toks [] = Inr (map (\<lambda>(x, y). (g x, g y)) coords)"
    by (simp add: points_loop_Inr_iff)
  with e1 e2 show "extract_polygon_points f (head @ [CHR 0x22] @ ?v @ [CHR 0x22] @ rest)
         = Inr (map (\<lambda>(x, y). (g x, g y)) coords)"
    by simp
qed

text \<open>
  Claim C5, as the code has it. The documented format with its trailing space before
  the closing quote is not accepted: the space ends an empty last token, which does not
  unpack into two halves (see the counterexample). For a selector whose attribute value
  is one or more pairs \<^verbatim>\<open>x,y\<close> separated by single spaces, with no space before the
  closing quote and every coordinate accepted by \<^verbatim>\<open>int(float(.))\<close>,
  \<^verbatim>\<open>extract_polygon_points\<close> returns the converted pairs in selector order, as many as
  the value has space-separated tokens. The selector
  \<^verbatim>\<open><svg><polygon points="0,0 10,0 10,10 0,10"></polygon></svg>\<close> yields
  \<open>[(0,0), (10,0), (10,10), (0,10)]\<close>.
\<close>

theorem extract_polygon_points_single_spaced:
  "(CHR 0x22 \<notin> set head \<and> coords \<noteq> []
      \<and> (\<forall>(x, y) \<in> set coords.
             set (x @ y) \<inter> {CHR '','', CHR '' '', CHR 0x22} = {}
             \<and> f x = Inr (g x) \<and> f y = Inr (g y))
    \<longrightarrow> extract_polygon_points f
          (head @ [CHR 0x22] @ join '' '' (map (\<lambda>(x, y). x @ '','' @ y) coords)
             @ [CHR 0x22] @ rest)
        = Inr (map (\<lambda>(x, y). (g x, g y)) coords)
      \<and> length (map (\<lambda>(x, y). (g x, g y)) coords)
        = length (split_str CHR '' '' (join '' '' (map (\<lambda>(x, y). x @ '','' @ y) coords))))
   \<and> (f ''0'' = Inr 0 \<and> f ''10'' = Inr 10
    \<longrightarrow> extract_polygon_points f
          (''<svg><polygon points='' @ [CHR 0x22] @ ''0,0 10,0 10,10 0,10'' @ [CHR 0x22]
             @ ''></polygon></svg>'')
        = Inr [(0, 0), (10, 0), (10, 10), (0, 10)])"
proof (intro conjI impI)
  assume a: "CHR 0x22 \<notin> set head \<and> coords \<noteq> []
      \<and> (\<forall>(x, y) \<in> set coords.
             set (x @ y) \<inter> {CHR '','', CHR '' '', CHR 0x22} = {}
             \<and> f x = Inr (g x) \<and> f y = Inr (g y))"
  then show "extract_polygon_points f
          (head @ [CHR 0x22] @ join '' '' (map (\<lambda>(x, y). x @ '','' @ y) coords)
             @ [CHR 0x22] @ rest)
        = Inr (map (\<lambda>(x, y). (g x, g y)) coords)"
    by (intro extract_polygon_points_valid(1)) simp_all
  from a have "split_str CHR '' '' (join '' '' (map (\<lambda>(x, y). x @ '','' @ y) coords))
         = map (\<lambda>(x, y). x @ '','' @ y) coords"
    by (intro extract_polygon_points_valid(2) [where head = head and f = f and g = g]) simp_all
  then show "length (map (\<lambda>(x, y). (g x, g y)) coords)
        = length (split_str CHR '' '' (join '' '' (map (\<lambda>(x, y). x @ '','' @ y) coords)))"
    by simp
next
  assume "f ''0'' = Inr 0 \<and> f ''10'' = Inr 10"
  then show "extract_polygon_points f
          (''<svg><polygon points='' @ [CHR 0x22] @ ''0,0 10,0 10,10 0,10'' @ [CHR 0x22]
             @ ''></polygon></svg>'')
        = Inr [(0, 0), (10, 0), (10, 10), (0, 10)]"
    by (simp add: extract_polygon_points_def)
qed

theorem extract_polygon_points_single_spaced_witness:
  "extract_polygon_points
     (\<lambda>s. if s = ''137.2'' then Inr 137 else if s = ''433.1'' then Inr 433
           else if s = ''396.3'' then Inr 396 else Inl ValueError)
     (''<svg><polygon points='' @ [CHR 0x22] @ ''137.2,433.1 396.3,433.1 396.3,137.2''
        @ [CHR 0x22] @ ''></polygon></svg>'')
   = Inr [(137, 433), (396, 433), (396, 137)]
   \<and> extract_polygon_points
     (\<lambda>s. if s = ''0'' then Inr 0 else if s = ''10'' then Inr 10 else Inl ValueError)
     (''<svg><polygon points='' @ [CHR 0x22] @ ''0,0 10,0 10,10 0,10'' @ [CHR 0x22]
        @ ''></polygon></svg>'')
   = Inr [(0, 0), (10, 0), (10, 10), (0, 10)]"
  using extract_polygon_points_single_spaced [of
      "''<svg><polygon points=''"
      "[(''137.2'', ''433.1''), (''396.3'', ''433.1''), (''396.3'', ''137.2'')]"
      "\<lambda>s. if s = ''137.2'' then Inr 137 else if s = ''433.1'' then Inr 433
           else if s = ''396.3'' then Inr 396 else Inl ValueError"
      "\<lambda>s. if s = ''137.2'' then 137 else if s = ''433.1'' then 433 else 396"
      "''></polygon></svg>''"]
    extract_polygon_points_single_spaced [of "[]" "[]"
      "\<lambda>s. if s = ''0'' then Inr 0 else if s = ''10'' then Inr 10 else Inl ValueError"]
  by simp

theorem extract_polygon_points_trailing_space_counterexample:
  "extract_polygon_points
     (\<lambda>s. if s = ''0'' then Inr 0 else if s = ''10'' then Inr 10 else Inl ValueError)
     (''<svg><polygon points='' @ [CHR 0x22] @ ''0,0 10,0 10,10 0,10 '' @ [CHR 0x22]
        @ ''></polygon></svg>'')
   = Inl ValueError"
  by (simp add: extract_polygon_points_def)

lemma extract_polygon_points_no_quote:
  "CHR 0x22 \<notin> set sel \<Longrightarrow> extract_polygon_points f sel = Inl IndexError"
  by (simp add: extract_polygon_points_def split_str_no_sep)

lemma extract_polygon_points_not_ParseError:
  "\<forall>s. f s \<noteq> Inl ParseError \<Longrightarrow> extract_polygon_points f sel \<noteq> Inl ParseError"
  by (auto simp: extract_polygon_points_def points_loop_not_ParseError split: list.splits)

lemma extract_polygon_points_Inr:
  "extract_polygon_points f sel = Inr ps \<Longrightarrow>
     \<exists>pre v post. split_str (CHR 0x22) sel = pre # v # post
       \<and> list_all2 (\<lambda>t p. \<exists>x y. split_str CHR '','' t = [x, y]
                              \<and> f x = Inr (fst p) \<and> f y = Inr (snd p))
            (split_str CHR '' '' v) ps"
  by (auto simp: extract_polygon_points_def points_loop_Inr_iff split: list.splits)

lemma points_loop_after_good:
  assumes "list_all2 (\<lambda>t p. \<exists>x y. split_str CHR '','' t = [x, y]
                              \<and> f x = Inr (fst p) \<and> f y = Inr (snd p)) good qs"
  shows "points_loop f (good @ rest) acc = points_loop f rest (acc @ qs)"
proof -
  have "points_loop f good acc = Inr (acc @ qs)"
    using assms by (auto simp: points_loop_Inr_iff)
  then show ?thesis by (simp add: points_loop_append)
qed

lemma extract_polygon_points_first_bad:
  assumes "split_str (CHR 0x22) sel = pre # v # post"
    and "split_str CHR '' '' v = good @ bad # later"
    and "list_all2 (\<lambda>t p. \<exists>x y. split_str CHR '','' t = [x, y]
                              \<and> f x = Inr (fst p) \<and> f y = Inr (snd p)) good qs"
  shows "length (split_str CHR '','' bad) \<noteq> 2 \<Longrightarrow> extract_polygon_points f sel = Inl ValueError"
    and "split_str CHR '','' bad = [x, y] \<Longrightarrow> f x = Inl e \<Longrightarrow> extract_polygon_points f sel = Inl e"
    and "split_str CHR '','' bad = [x, y] \<Longrightarrow> f x = Inr a \<Longrightarrow> f y = Inl e
         \<Longrightarrow> extract_polygon_points f sel = Inl e"
proof -
  have e: "extract_polygon_points f sel = points_loop f (bad # later) qs"
    using assms by (simp add: extract_polygon_points_def points_loop_after_good)
  show "length (split_str CHR '','' bad) \<noteq> 2 \<Longrightarrow> extract_polygon_points f sel = Inl ValueError"
    unfolding e by (auto split: list.splits)
  show "split_str CHR '','' bad = [x, y] \<Longrightarrow> f x = Inl e \<Longrightarrow> extract_polygon_points f sel = Inl e"
    unfolding e by simp
  show "split_str CHR '','' bad = [x, y] \<Longrightarrow> f x = Inr a \<Longrightarrow> f y = Inl e
         \<Longrightarrow> extract_polygon_points f sel = Inl e"
    unfolding e by simp
qed

text \<open>
  Claim C6, as the code has it. The notebooks have no \<^verbatim>\<open>ParseError\<close>: a malformed
  selector ends in one of Python's own exceptions, and \<^verbatim>\<open>extract_polygon_points\<close> never
  raises \<^verbatim>\<open>ParseError\<close>. A selector without a double quote raises \<^verbatim>\<open>IndexError\<close>. At the
  first space-separated token that is not two accepted coordinates, a token that does not
  split at its commas into exactly two halves raises \<^verbatim>\<open>ValueError\<close>, and a half that
  \<^verbatim>\<open>int(float(.))\<close> rejects raises that conversion's exception (\<^verbatim>\<open>ValueError\<close> for a
  string that is no number). A point list is returned only when every token is two
  comma-separated coordinates that the conversion accepts, and it then holds exactly
  those converted pairs in order.
\<close>

theorem extract_polygon_points_malformed:
  "(CHR 0x22 \<notin> set sel \<longrightarrow> extract_polygon_points f sel = Inl IndexError)
   \<and> (split_str (CHR 0x22) sel = pre # v # post
        \<and> split_str CHR '' '' v = good @ bad # later
        \<and> list_all2 (\<lambda>t p. \<exists>x y. split_str CHR '','' t = [x, y]
                               \<and> f x = Inr (fst p) \<and> f y = Inr (snd p)) good qs
      \<longrightarrow> (length (split_str CHR '','' bad) \<noteq> 2
             \<longrightarrow> extract_polygon_points f sel = Inl ValueError)
        \<and> (split_str CHR '','' bad = [x, y] \<and> f x = Inl e
             \<longrightarrow> extract_polygon_points f sel = Inl e)
        \<and> (split_str CHR '','' bad = [x, y] \<and> f x = Inr a \<and> f y = Inl e
             \<longrightarrow> extract_polygon_points f sel = Inl e))
   \<and> (extract_polygon_points f sel = Inr ps
      \<longrightarrow> (\<exists>pre v post. split_str (CHR 0x22) sel = pre # v # post
             \<and> list_all2 (\<lambda>t p. \<exists>x y. split_str CHR '','' t = [x, y]
                                    \<and> f x = Inr (fst p) \<and> f y = Inr (snd p))
                  (split_str CHR '' '' v) ps))
   \<and> ((\<forall>s. f s \<noteq> Inl ParseError) \<longrightarrow> extract_polygon_points f sel \<noteq> Inl ParseError)"
  using extract_polygon_points_no_quote [of sel f]
    extract_polygon_points_first_bad [of sel pre v post good bad later f qs]
    extract_polygon_points_Inr [of f sel ps]
    extract_polygon_points_not_ParseError [of f sel]
  by blast

theorem extract_polygon_points_malformed_witness:
  "extract_polygon_points
     (\<lambda>s. if s = ''0'' then Inr 0 else if s = ''10'' then Inr 10
           else if s = ''inf'' then Inl OverflowError else Inl ValueError)
     ''<svg><polygon points=0,0 10,0></polygon></svg>''
   = Inl IndexError
   \<and> extract_polygon_points
     (\<lambda>s. if s = ''0'' then Inr 0 else if s = ''10'' then Inr 10
           else if s = ''inf'' then Inl OverflowError else Inl ValueError)
     (''<svg><polygon points='' @ [CHR 0x22] @ ''0,0 10 10,0'' @ [CHR 0x22] @ ''></polygon></svg>'')
   = Inl ValueError
   \<and> extract_polygon_points
     (\<lambda>s. if s = ''0'' then Inr 0 else if s = ''10'' then Inr 10
           else if s = ''inf'' then Inl OverflowError else Inl ValueError)
     (''<svg><polygon points='' @ [CHR 0x22] @ ''0,0 10,abc'' @ [CHR 0x22] @ ''></polygon></svg>'')
   = Inl ValueError
   \<and> extract_polygon_points
     (\<lambda>s. if s = ''0'' then Inr 0 else if s = ''10'' then Inr 10
           else if s = ''inf'' then Inl OverflowError else Inl ValueError)
     (''<svg><polygon points='' @ [CHR 0x22] @ ''0,0 inf,0'' @ [CHR 0x22] @ ''></polygon></svg>'')
   = Inl OverflowError
   \<and> extract_polygon_points
     (\<lambda>s. if s = ''0'' then Inr 0 else if s = ''10'' then Inr 10
           else if s = ''inf'' then Inl OverflowError else Inl ValueError)
     (''<svg><polygon points='' @ [CHR 0x22] @ ''0,0 inf,0'' @ [CHR 0x22] @ ''></polygon></svg>'')
   \<noteq> Inl ParseError
   \<and> (\<exists>pre v post.
         split_str (CHR 0x22)
           (''<svg><polygon points='' @ [CHR 0x22] @ ''0,0 10,0'' @ [CHR 0x22]
              @ ''></polygon></svg>'')
         = pre # v # post
         \<and> split_str CHR '' '' v = [''0,0'', ''10,0''])"
proof -
  let ?f = "\<lambda>s. if s = ''0'' then Inr 0 else if s = ''10'' then Inr 10
           else if s = ''inf'' then Inl OverflowError else (Inl ValueError :: error + int)"
  have good: "list_all2 (\<lambda>t p. \<exists>x y. split_str CHR '','' t = [x, y]
                               \<and> ?f x = Inr (fst p) \<and> ?f y = Inr (snd p)) [''0,0''] [(0, 0)]"
    by simp
  have no_parse_error: "\<forall>s. ?f s \<noteq> Inl ParseError"
    by simp
  have ok: "extract_polygon_points ?f
      (''<svg><polygon points='' @ [CHR 0x22] @ ''0,0 10,0'' @ [CHR 0x22] @ ''></polygon></svg>'')
      = Inr [(0, 0), (10, 0)]"
    by (simp add: extract_polygon_points_def)
  note T = extract_polygon_points_malformed [where f = ?f and pre = "''<svg><polygon points=''"
      and post = "[''></polygon></svg>'']" and good = "[''0,0'']" and qs = "[(0, 0)]"]
  have returned: "\<exists>pre v post.
         split_str (CHR 0x22)
           (''<svg><polygon points='' @ [CHR 0x22] @ ''0,0 10,0'' @ [CHR 0x22]
              @ ''></polygon></svg>'')
         = pre # v # post
         \<and> list_all2 (\<lambda>t p. \<exists>x y. split_str CHR '','' t = [x, y]
                               \<and> ?f x = Inr (fst p) \<and> ?f y = Inr (snd p))
              (split_str CHR '' '' v) [(0, 0), (10, 0)]"
    using ok T [where sel = "''<svg><polygon points='' @ [CHR 0x22] @ ''0,0 10,0'' @ [CHR 0x22]
            @ ''></polygon></svg>''" and ps = "[(0, 0), (10, 0)]"]
    by blast
  then have shape: "\<exists>pre v post.
         split_str (CHR 0x22)
           (''<svg><polygon points='' @ [CHR 0x22] @ ''0,0 10,0'' @ [CHR 0x22]
              @ ''></polygon></svg>'')
         = pre # v # post
         \<and> split_str CHR '' '' v = [''0,0'', ''10,0'']"
    by simp
  have errors: "extract_polygon_points ?f ''<svg><polygon points=0,0 10,0></polygon></svg>''
      = Inl IndexError
   \<and> extract_polygon_points ?f
     (''<svg><polygon points='' @ [CHR 0x22] @ ''0,0 10 10,0'' @ [CHR 0x22] @ ''></polygon></svg>'')
      = Inl ValueError
   \<and> extract_polygon_points ?f
     (''<svg><polygon points='' @ [CHR 0x22] @ ''0,0 10,abc'' @ [CHR 0x22] @ ''></polygon></svg>'')
      = Inl ValueError
   \<and> extract_polygon_points ?f
     (''<svg><polygon points='' @ [CHR 0x22] @ ''0,0 inf,0'' @ [CHR 0x22] @ ''></polygon></svg>'')
      = Inl OverflowError
   \<and> extract_polygon_points ?f
     (''<svg><polygon points='' @ [CHR 0x22] @ ''0,0 inf,0'' @ [CHR 0x22] @ ''></polygon></svg>'')
      \<noteq> Inl ParseError"
    using good no_parse_error
      T [where sel = "''<svg><polygon points=0,0 10,0></polygon></svg>''"]
      T [where sel = "''<svg><polygon points='' @ [CHR 0x22] @ ''0,0 10 10,0'' @ [CHR 0x22]
            @ ''></polygon></svg>''" and v = "''0,0 10 10,0''" and bad = "''10''"
          and later = "[''10,0'']"]
      T [where sel = "''<svg><polygon points='' @ [CHR 0x22] @ ''0,0 10,abc'' @ [CHR 0x22]
            @ ''></polygon></svg>''" and v = "''0,0 10,abc''" and bad = "''10,abc''"
          and later = "[]" and x = "''10''" and y = "''abc''" and a = 10 and e = ValueError]
      T [where sel = "''<svg><polygon points='' @ [CHR 0x22] @ ''0,0 inf,0'' @ [CHR 0x22]
            @ ''></polygon></svg>''" and v = "''0,0 inf,0''" and bad = "''inf,0''"
          and later = "[]" and x = "''inf''" and y = "''0''" and e = OverflowError]
    by simp
  from errors shape show ?thesis by blast
qed

theorem extract_polygon_points_ParseError_counterexample:
  "extract_polygon_points
     (\<lambda>s. if s = ''0'' then Inr 0 else if s = ''10'' then Inr 10 else Inl ValueError)
     ''<svg><polygon points=0,0 10,0></polygon></svg>''
   = Inl IndexError
   \<and> extract_polygon_points
     (\<lambda>s. if s = ''0'' then Inr 0 else if s = ''10'' then Inr 10 else Inl ValueError)
     ''<svg><polygon points=0,0 10,0></polygon></svg>''
   \<noteq> Inl ParseError"
  by (simp add: extract_polygon_points_def)

section \<open>Properties of the cropper\<close>

lemma np_min_eq: "np_min vs = (if vs = [] then Inl ValueError else Inr (Min (set vs)))"
proof (cases vs)
  case Nil
  then show ?thesis by simp
next
  case (Cons a list)
  then show ?thesis using Min.set_eq_fold [of a list] by simp
qed

lemma np_max_eq: "np_max vs = (if vs = [] then Inl ValueError else Inr (Max (set vs)))"
proof (cases vs)
  case Nil
  then show ?thesis by simp
next
  case (Cons a list)
  then show ?thesis using Max.set_eq_fold [of a list] by simp
qed

lemma in_concat_enumerate:
  "z \<in> set (concat (map (\<lambda>(i, e). F i e) (enumerate 0 xs))) \<longleftrightarrow>
     (\<exists>i < length xs. z \<in> set (F i (xs ! i)))"
proof
  assume "z \<in> set (concat (map (\<lambda>(i, e). F i e) (enumerate 0 xs)))"
  then obtain i e where "(i, e) \<in> set (enumerate 0 xs)" and "z \<in> set (F i e)"
    by auto
  then show "\<exists>i < length xs. z \<in> set (F i (xs ! i))"
    by (auto simp: in_set_enumerate_eq)
next
  assume "\<exists>i < length xs. z \<in> set (F i (xs ! i))"
  then obtain i where "i < length xs" and z: "z \<in> set (F i (xs ! i))" by blast
  then have "(i, xs ! i) \<in> set (enumerate 0 xs)"
    by (simp add: in_set_enumerate_eq)
  with z show "z \<in> set (concat (map (\<lambda>(i, e). F i e) (enumerate 0 xs)))"
    by force
qed

lemma in_nonzero_channels:
  "z \<in> set (map (\<lambda>(c, v). (y, x, c)) (filter (\<lambda>(c, v). v \<noteq> 0) (enumerate 0 vs))) \<longleftrightarrow>
     (\<exists>c < length vs. vs ! c \<noteq> (0 :: 8 word) \<and> z = (y, x, c))"
  by (force simp: in_set_enumerate_eq)

lemma length_channels: "length (channels px) = 3"
  by (cases px) (simp add: channels_def)

lemma channels_zero_iff: "(\<forall>c < 3. channels px ! c = 0) \<longleftrightarrow> px = (0, 0, 0)"
proof -
  obtain c0 c1 c2 where px: "px = (c0, c1, c2)" by (cases px)
  have "(\<forall>c < 3. [c0, c1, c2] ! c = 0) \<longleftrightarrow> c0 = 0 \<and> c1 = 0 \<and> c2 = 0"
  proof
    assume a: "\<forall>c < 3. [c0, c1, c2] ! c = 0"
    from a [rule_format, of 0] a [rule_format, of 1] a [rule_format, of 2]
    show "c0 = 0 \<and> c1 = 0 \<and> c2 = 0" by simp
  next
    assume "c0 = 0 \<and> c1 = 0 \<and> c2 = 0"
    then show "\<forall>c < 3. [c0, c1, c2] ! c = 0"
      by (auto simp: nth_Cons split: nat.splits)
  qed
  then show ?thesis by (simp add: px channels_def)
qed

lemma set_np_where_nonzero:
  "(y, x, c) \<in> set (np_where_nonzero a) \<longleftrightarrow>
     y < length a \<and> x < length (a ! y) \<and> c < 3 \<and> channels (a ! y ! x) ! c \<noteq> 0"
  unfolding np_where_nonzero_def in_concat_enumerate in_nonzero_channels length_channels
  by auto

lemma np_where_nonzero_Nil_iff:
  "np_where_nonzero a = [] \<longleftrightarrow> (\<forall>row \<in> set a. \<forall>px \<in> set row. px = (0, 0, 0))"
proof
  assume e: "np_where_nonzero a = []"
  show "\<forall>row \<in> set a. \<forall>px \<in> set row. px = (0, 0, 0)"
  proof (intro ballI)
    fix row px assume "row \<in> set a" "px \<in> set row"
    then obtain y x where yx: "y < length a" "a ! y = row" "x < length row" "row ! x = px"
      by (metis in_set_conv_nth)
    have "channels px ! c = 0" if "c < 3" for c
    proof (rule ccontr)
      assume "channels px ! c \<noteq> 0"
      with yx that have "(y, x, c) \<in> set (np_where_nonzero a)"
        by (simp add: set_np_where_nonzero)
      with e show False by simp
    qed
    then show "px = (0, 0, 0)"
      by (simp add: channels_zero_iff [symmetric])
  qed
next
  assume z: "\<forall>row \<in> set a. \<forall>px \<in> set row. px = (0, 0, 0)"
  have "p \<notin> set (np_where_nonzero a)" for p
  proof (cases p)
    case (fields y x c)
    show ?thesis
    proof
      assume "p \<in> set (np_where_nonzero a)"
      then have in_a: "y < length a" "x < length (a ! y)" "c < 3"
        and nz: "channels (a ! y ! x) ! c \<noteq> 0"
        by (simp_all add: fields set_np_where_nonzero)
      from in_a z have "a ! y ! x = (0, 0, 0)"
        by (meson nth_mem)
      then have "channels (a ! y ! x) ! c = 0"
        using in_a(3) channels_zero_iff [of "a ! y ! x"] by simp
      with nz show False by simp
    qed
  qed
  then show "np_where_nonzero a = []"
    by (meson last_in_set)
qed

lemma crop_image_Some:
  "crop_image wide cv (Some img) pts =
     (if list_ex (\<lambda>(x, y). np_int32_raises wide x \<or> np_int32_raises wide y) pts
      then Inl OverflowError
      else
        (let idx = np_where_nonzero (masked_image cv img pts)
         in if idx = [] then Inl ValueError
            else Inr (slice2 (masked_image cv img pts)
                        (Min (fst ` set idx)) (Max (fst ` set idx))
                        (Min ((fst \<circ> snd) ` set idx)) (Max ((fst \<circ> snd) ` set idx)))))"
  by (simp add: crop_image_def Let_def np_min_eq np_max_eq)

lemma fillPoly_uncovered:
  assumes "\<forall>y < length m. \<forall>x < length (m ! y). \<not> cv pts x y"
  shows "fillPoly cv m pts color = m"
  unfolding fillPoly_def
  apply (rule nth_equalityI)
   apply simp
  apply (simp add: nth_enumerate_eq)
  apply (rule nth_equalityI)
   apply simp
  using assms apply (simp add: nth_enumerate_eq)
  done

lemma bitwise_and_zeros: "bitwise_and img (np_zeros_like img) = np_zeros_like img"
  unfolding bitwise_and_def np_zeros_like_def
  by (simp add: zip_map2 zip_same_conv_map comp_def split_def)

lemma np_zeros_like_zero:
  "row \<in> set (np_zeros_like img) \<Longrightarrow> px \<in> set row \<Longrightarrow> px = (0, 0, 0)"
  by (auto simp: np_zeros_like_def)

lemma masked_image_uncovered:
  assumes "\<forall>y < length img. \<forall>x < length (img ! y). \<not> cv pts x y"
  shows "masked_image cv img pts = np_zeros_like img"
proof -
  have "fillPoly cv (np_zeros_like img) pts color = np_zeros_like img" for color
    using assms by (intro fillPoly_uncovered) (simp add: np_zeros_like_def)
  then show ?thesis
    by (simp add: masked_image_def bitwise_and_zeros)
qed

lemma crop_image_not_EmptyRegionError: "crop_image wide cv im pts \<noteq> Inl EmptyRegionError"
proof (cases im)
  case None
  then show ?thesis by (simp add: crop_image_def)
next
  case (Some a)
  then show ?thesis by (simp add: crop_image_Some Let_def)
qed

text \<open>
  Claim C3, as the code has it. The notebooks have no \<^verbatim>\<open>EmptyRegionError\<close>. Take an
  image with at least one pixel. When every coordinate of the polygon is converted to
  \<^verbatim>\<open>int32\<close> without an exception and the masked image has no non-zero entry (in
  particular when the polygon covers no pixel of the image), \<^verbatim>\<open>np.min\<close> of the empty
  index array raises \<^verbatim>\<open>ValueError\<close>, so \<^verbatim>\<open>crop_image\<close> raises \<^verbatim>\<open>ValueError\<close>. When the
  conversion of a coordinate raises, which it can only for a coordinate outside the range
  of \<^verbatim>\<open>int32\<close>, \<^verbatim>\<open>crop_image\<close> raises that \<^verbatim>\<open>OverflowError\<close> before it looks at the
  mask. Whenever the masked image has no non-zero entry no buffer is returned, and no
  input makes \<^verbatim>\<open>crop_image\<close> raise \<^verbatim>\<open>EmptyRegionError\<close>.
\<close>

theorem crop_image_empty_region:
  "(decoded_image img
      \<and> (\<forall>(x, y) \<in> set pts. \<not> np_int32_raises wide x \<and> \<not> np_int32_raises wide y)
      \<and> (\<forall>row \<in> set (masked_image cv img pts). \<forall>px \<in> set row. px = (0, 0, 0))
      \<longrightarrow> crop_image wide cv (Some img) pts = Inl ValueError)
   \<and> (decoded_image img
      \<and> (\<forall>(x, y) \<in> set pts. \<not> np_int32_raises wide x \<and> \<not> np_int32_raises wide y)
      \<and> (\<forall>y < length img. \<forall>x < length (img ! y). \<not> cv pts x y)
      \<longrightarrow> crop_image wide cv (Some img) pts = Inl ValueError)
   \<and> ((\<exists>(x, y) \<in> set pts. np_int32_raises wide x \<or> np_int32_raises wide y)
      \<longrightarrow> crop_image wide cv (Some img) pts = Inl OverflowError)
   \<and> ((\<forall>(x, y) \<in> set pts. - 2147483648 \<le> x \<and> x \<le> 2147483647
                          \<and> - 2147483648 \<le> y \<and> y \<le> 2147483647)
      \<longrightarrow> crop_image wide cv (Some img) pts \<noteq> Inl OverflowError)
   \<and> (decoded_image img
      \<and> (\<forall>row \<in> set (masked_image cv img pts). \<forall>px \<in> set row. px = (0, 0, 0))
      \<longrightarrow> crop_image wide cv (Some img) pts = Inl ValueError
        \<or> crop_image wide cv (Some img) pts = Inl OverflowError)
   \<and> crop_image wide cv im pts \<noteq> Inl EmptyRegionError"
proof (intro conjI impI)
  assume a: "decoded_image img
    \<and> (\<forall>(x, y) \<in> set pts. \<not> np_int32_raises wide x \<and> \<not> np_int32_raises wide y)
    \<and> (\<forall>row \<in> set (masked_image cv img pts). \<forall>px \<in> set row. px = (0, 0, 0))"
  from a [THEN conjunct2, THEN conjunct2]
  have "np_where_nonzero (masked_image cv img pts) = []"
    by (simp only: np_where_nonzero_Nil_iff)
  moreover have "\<not> list_ex (\<lambda>(x, y). np_int32_raises wide x \<or> np_int32_raises wide y) pts"
    using a by (auto simp: list_ex_iff)
  ultimately show "crop_image wide cv (Some img) pts = Inl ValueError"
    by (simp add: crop_image_Some)
next
  assume a: "decoded_image img
    \<and> (\<forall>(x, y) \<in> set pts. \<not> np_int32_raises wide x \<and> \<not> np_int32_raises wide y)
    \<and> (\<forall>y < length img. \<forall>x < length (img ! y). \<not> cv pts x y)"
  from a [THEN conjunct2, THEN conjunct2] have "masked_image cv img pts = np_zeros_like img"
    by (rule masked_image_uncovered)
  then have "np_where_nonzero (masked_image cv img pts) = []"
    using np_zeros_like_zero [of _ img] by (simp add: np_where_nonzero_Nil_iff)
  moreover have "\<not> list_ex (\<lambda>(x, y). np_int32_raises wide x \<or> np_int32_raises wide y) pts"
    using a by (auto simp: list_ex_iff)
  ultimately show "crop_image wide cv (Some img) pts = Inl ValueError"
    by (simp add: crop_image_Some)
next
  assume "\<exists>(x, y) \<in> set pts. np_int32_raises wide x \<or> np_int32_raises wide y"
  then have "list_ex (\<lambda>(x, y). np_int32_raises wide x \<or> np_int32_raises wide y) pts"
    by (simp add: list_ex_iff)
  then show "crop_image wide cv (Some img) pts = Inl OverflowError"
    by (simp add: crop_image_Some)
next
  assume "\<forall>(x, y) \<in> set pts. - 2147483648 \<le> x \<and> x \<le> 2147483647
                          \<and> - 2147483648 \<le> y \<and> y \<le> 2147483647"
  then have "\<not> list_ex (\<lambda>(x, y). np_int32_raises wide x \<or> np_int32_raises wide y) pts"
    by (auto simp: list_ex_iff np_int32_raises_def)
  then show "crop_image wide cv (Some img) pts \<noteq> Inl OverflowError"
    by (simp add: crop_image_Some Let_def)
next
  assume a: "decoded_image img
    \<and> (\<forall>row \<in> set (masked_image cv img pts). \<forall>px \<in> set row. px = (0, 0, 0))"
  from a [THEN conjunct2] have "np_where_nonzero (masked_image cv img pts) = []"
    by (simp only: np_where_nonzero_Nil_iff)
  then show "crop_image wide cv (Some img) pts = Inl ValueError
        \<or> crop_image wide cv (Some img) pts = Inl OverflowError"
    by (simp add: crop_image_Some)
next
  show "crop_image wide cv im pts \<noteq> Inl EmptyRegionError"
    by (rule crop_image_not_EmptyRegionError)
qed

theorem crop_image_empty_region_witness:
  "crop_image (\<lambda>v. True) (\<lambda>pts x y. 25 \<le> x \<and> x \<le> 30 \<and> 25 \<le> y \<and> y \<le> 30)
     (Some (replicate 3 (replicate 3 (255, 255, 255))))
     [(25, 25), (30, 25), (30, 30), (25, 30)]
   = Inl ValueError
   \<and> crop_image (\<lambda>v. True) (\<lambda>pts x y. x \<le> 1 \<and> y \<le> 1)
     (Some (replicate 2 (replicate 2 (0, 0, 0))))
     [(0, 0), (1, 0), (1, 1), (0, 1)]
   = Inl ValueError
   \<and> crop_image (\<lambda>v. True) (\<lambda>pts x y. x \<le> 1 \<and> y \<le> 1)
     (Some (replicate 2 (replicate 2 (255, 255, 255))))
     [(0, 0), (3000000000, 0), (3000000000, 1), (0, 1)]
   = Inl OverflowError"
proof -
  let ?far = "[(25, 25), (30, 25), (30, 30), (25, 30)] :: (int \<times> int) list"
  let ?near = "[(0, 0), (1, 0), (1, 1), (0, 1)] :: (int \<times> int) list"
  let ?huge = "[(0, 0), (3000000000, 0), (3000000000, 1), (0, 1)] :: (int \<times> int) list"
  let ?white = "replicate 3 (replicate 3 (255, 255, 255)) :: image"
  let ?black = "replicate 2 (replicate 2 (0, 0, 0)) :: image"
  have white: "decoded_image ?white"
    by code_simp
  have black: "decoded_image ?black"
    by code_simp
  have far: "\<forall>(x, y) \<in> set ?far.
      \<not> np_int32_raises (\<lambda>v. True) x \<and> \<not> np_int32_raises (\<lambda>v. True) y"
    by (simp add: np_int32_raises_def)
  have near: "\<forall>(x, y) \<in> set ?near.
      \<not> np_int32_raises (\<lambda>v. True) x \<and> \<not> np_int32_raises (\<lambda>v. True) y"
    by (simp add: np_int32_raises_def)
  have huge: "\<exists>(x, y) \<in> set ?huge.
      np_int32_raises (\<lambda>v. True) x \<or> np_int32_raises (\<lambda>v. True) y"
    by (simp add: np_int32_raises_def)
  have outside: "\<forall>y < length ?white. \<forall>x < length (?white ! y).
        \<not> (\<lambda>pts x y. 25 \<le> x \<and> x \<le> 30 \<and> 25 \<le> y \<and> y \<le> 30) ?far x y"
    by simp
  have masked: "masked_image (\<lambda>pts x y. x \<le> 1 \<and> y \<le> 1) ?black ?near = ?black"
    by code_simp
  have zero: "\<forall>row \<in> set (masked_image (\<lambda>pts x y. x \<le> 1 \<and> y \<le> 1) ?black ?near).
      \<forall>px \<in> set row. px = (0, 0, 0)"
    unfolding masked by simp
  note far_thm = crop_image_empty_region [where wide = "\<lambda>v. True"
      and cv = "\<lambda>pts x y. 25 \<le> x \<and> x \<le> 30 \<and> 25 \<le> y \<and> y \<le> 30"
      and img = ?white and pts = ?far]
  note near_thm = crop_image_empty_region [where wide = "\<lambda>v. True"
      and cv = "\<lambda>pts x y. x \<le> 1 \<and> y \<le> 1" and img = ?black and pts = ?near]
  note huge_thm = crop_image_empty_region [where wide = "\<lambda>v. True"
      and cv = "\<lambda>pts x y. x \<le> 1 \<and> y \<le> 1"
      and img = "replicate 2 (replicate 2 (255, 255, 255))" and pts = ?huge]
  have a: "crop_image (\<lambda>v. True) (\<lambda>pts x y. 25 \<le> x \<and> x \<le> 30 \<and> 25 \<le> y \<and> y \<le> 30)
     (Some ?white) ?far = Inl ValueError"
    using far_thm [THEN conjunct2, THEN conjunct1] conjI [OF white conjI [OF far outside]]
    by (rule mp)
  have b: "crop_image (\<lambda>v. True) (\<lambda>pts x y. x \<le> 1 \<and> y \<le> 1) (Some ?black) ?near
     = Inl ValueError"
    using near_thm [THEN conjunct1] conjI [OF black conjI [OF near zero]] by (rule mp)
  have c: "crop_image (\<lambda>v. True) (\<lambda>pts x y. x \<le> 1 \<and> y \<le> 1)
     (Some (replicate 2 (replicate 2 (255, 255, 255)))) ?huge = Inl OverflowError"
    using huge_thm [THEN conjunct2, THEN conjunct2, THEN conjunct1] huge by (rule mp)
  show ?thesis
    using a b c by (intro conjI)
qed

theorem crop_image_EmptyRegionError_counterexample:
  "crop_image (\<lambda>v. True) (\<lambda>pts x y. 25 \<le> x \<and> x \<le> 30 \<and> 25 \<le> y \<and> y \<le> 30)
     (Some (replicate 3 (replicate 3 (255, 255, 255))))
     [(25, 25), (30, 25), (30, 30), (25, 30)]
   = Inl ValueError
   \<and> crop_image (\<lambda>v. True) (\<lambda>pts x y. 25 \<le> x \<and> x \<le> 30 \<and> 25 \<le> y \<and> y \<le> 30)
     (Some (replicate 3 (replicate 3 (255, 255, 255))))
     [(25, 25), (30, 25), (30, 30), (25, 30)]
   \<noteq> Inl EmptyRegionError"
  by code_simp

text \<open>
  Claim C1 fails on the code. Whenever \<^verbatim>\<open>crop_image\<close> returns, the crop is the slice
  \<^verbatim>\<open>masked_image[min(y):max(y), min(x):max(x)]\<close>, whose upper bounds are excluded: it has
  \<open>max(y) - min(y)\<close> rows and at most \<open>max(x) - min(x)\<close> columns, one fewer each than
  the bounding box of the non-zero pixels, which spans rows \<open>min(y)\<close> to \<open>max(y)\<close> and
  columns \<open>min(x)\<close> to \<open>max(x)\<close>. The last row and the last column that hold a non-zero
  pixel are cut off.
\<close>

theorem crop_image_excludes_last_row_and_column:
  "crop_image wide cv (Some img) pts = Inr c \<longrightarrow>
     (let idx = np_where_nonzero (masked_image cv img pts)
      in idx \<noteq> []
         \<and> c = slice2 (masked_image cv img pts)
                 (Min (fst ` set idx)) (Max (fst ` set idx))
                 (Min ((fst \<circ> snd) ` set idx)) (Max ((fst \<circ> snd) ` set idx))
         \<and> length c = Max (fst ` set idx) - Min (fst ` set idx)
         \<and> (\<forall>row \<in> set c. length row \<le> Max ((fst \<circ> snd) ` set idx) - Min ((fst \<circ> snd) ` set idx)))"
proof
  assume r: "crop_image wide cv (Some img) pts = Inr c"
  define idx where "idx = np_where_nonzero (masked_image cv img pts)"
  have ne: "idx \<noteq> []"
    using r by (auto simp: crop_image_Some idx_def Let_def split: if_splits)
  have c: "c = slice2 (masked_image cv img pts)
                 (Min (fst ` set idx)) (Max (fst ` set idx))
                 (Min ((fst \<circ> snd) ` set idx)) (Max ((fst \<circ> snd) ` set idx))"
    using r ne by (auto simp: crop_image_Some idx_def Let_def split: if_splits)
  have "Max (fst ` set idx) \<in> fst ` set idx"
    using ne by (intro Max_in) auto
  then obtain x ch where "(Max (fst ` set idx), x, ch) \<in> set idx"
    by force
  then have "Max (fst ` set idx) < length (masked_image cv img pts)"
    by (simp add: idx_def set_np_where_nonzero)
  then have len: "length c = Max (fst ` set idx) - Min (fst ` set idx)"
    unfolding c slice2_def by simp
  have cols: "\<forall>row \<in> set c. length row \<le> Max ((fst \<circ> snd) ` set idx) - Min ((fst \<circ> snd) ` set idx)"
    unfolding c slice2_def by auto
  show "let idx = np_where_nonzero (masked_image cv img pts)
      in idx \<noteq> []
         \<and> c = slice2 (masked_image cv img pts)
                 (Min (fst ` set idx)) (Max (fst ` set idx))
                 (Min ((fst \<circ> snd) ` set idx)) (Max ((fst \<circ> snd) ` set idx))
         \<and> length c = Max (fst ` set idx) - Min (fst ` set idx)
         \<and> (\<forall>row \<in> set c. length row \<le> Max ((fst \<circ> snd) ` set idx) - Min ((fst \<circ> snd) ` set idx))"
    using ne c len cols unfolding idx_def Let_def by blast
qed

theorem crop_image_excludes_last_row_and_column_witness:
  "crop_image (\<lambda>v. True) (\<lambda>pts x y. True) (Some (replicate 3 (replicate 3 (255, 255, 255))))
     [(-5, -5), (50, -5), (50, 50), (-5, 50)]
   = Inr (replicate 2 (replicate 2 (255, 255, 255)))
   \<and> remdups (map fst (np_where_nonzero (masked_image (\<lambda>pts x y. True)
         (replicate 3 (replicate 3 (255, 255, 255)))
         [(-5, -5), (50, -5), (50, 50), (-5, 50)]))) = [0, 1, 2]
   \<and> Max (fst ` set (np_where_nonzero (masked_image (\<lambda>pts x y. True)
         (replicate 3 (replicate 3 (255, 255, 255)))
         [(-5, -5), (50, -5), (50, 50), (-5, 50)])))
     - Min (fst ` set (np_where_nonzero (masked_image (\<lambda>pts x y. True)
         (replicate 3 (replicate 3 (255, 255, 255)))
         [(-5, -5), (50, -5), (50, 50), (-5, 50)])))
     = 2"
proof -
  have crop: "crop_image (\<lambda>v. True) (\<lambda>pts x y. True)
       (Some (replicate 3 (replicate 3 (255, 255, 255))))
       [(-5, -5), (50, -5), (50, 50), (-5, 50)]
     = Inr (replicate 2 (replicate 2 (255, 255, 255)))"
    by code_simp
  have rows: "remdups (map fst (np_where_nonzero (masked_image (\<lambda>pts x y. True)
         (replicate 3 (replicate 3 (255, 255, 255)))
         [(-5, -5), (50, -5), (50, 50), (-5, 50)]))) = [0, 1, 2]"
    by code_simp
  have "length (replicate 2 (replicate 2 (255 :: 8 word, 255 :: 8 word, 255 :: 8 word)))
      = Max (fst ` set (np_where_nonzero (masked_image (\<lambda>pts x y. True)
         (replicate 3 (replicate 3 (255, 255, 255)))
         [(-5, -5), (50, -5), (50, 50), (-5, 50)])))
     - Min (fst ` set (np_where_nonzero (masked_image (\<lambda>pts x y. True)
         (replicate 3 (replicate 3 (255, 255, 255)))
         [(-5, -5), (50, -5), (50, 50), (-5, 50)])))"
    using crop_image_excludes_last_row_and_column [of "\<lambda>v. True" "\<lambda>pts x y. True"
        "replicate 3 (replicate 3 (255, 255, 255))"
        "[(-5, -5), (50, -5), (50, 50), (-5, 50)]"
        "replicate 2 (replicate 2 (255, 255, 255))"] crop
    unfolding Let_def by blast
  with crop rows show ?thesis by simp
qed

text \<open>
  The example of claim C1: a uniform white 20 x 20 image and the square
  \<open>[(0,0), (10,0), (10,10), (0,10)]\<close>, with the pixels OpenCV fills for it (columns and
  rows 0 to 10, the boundary included). The crop is 10 x 10 and all white, and the
  non-zero rows of the masked image are 0 to 10: row 10 and column 10 are cut off.
\<close>

lemma crop_image_square_example:
  "crop_image (\<lambda>v. True) (\<lambda>pts x y. x \<le> 10 \<and> y \<le> 10)
     (Some (replicate 20 (replicate 20 (255, 255, 255))))
     [(0, 0), (10, 0), (10, 10), (0, 10)]
   = Inr (replicate 10 (replicate 10 (255, 255, 255)))
   \<and> remdups (map fst (np_where_nonzero (masked_image (\<lambda>pts x y. x \<le> 10 \<and> y \<le> 10)
         (replicate 20 (replicate 20 (255, 255, 255)))
         [(0, 0), (10, 0), (10, 10), (0, 10)]))) = [0, 1, 2, 3, 4, 5, 6, 7, 8, 9, 10]"
  by code_simp

section \<open>Properties of the table builder\<close>

lemma loop_body_cols:
  "append_fields a (append_to ''Image'' cell
     [(''Image'', c1), (''Title'', c2), (''Tags'', c3), (''Notes'', c4), (''Line Color'', c5)])
   = [(''Image'', c1 @ [cell]), (''Title'', c2 @ [title_cell a]), (''Tags'', c3 @ [tags_cell a]),
      (''Notes'', c4 @ [notes_cell a]), (''Line Color'', c5 @ [line_color_cell a])]"
  by (simp add: append_fields_def append_to_def)

lemma annotation_table_loop_cols:
  "annotation_table_loop L img as
     [(''Image'', c1), (''Title'', c2), (''Tags'', c3), (''Notes'', c4), (''Line Color'', c5)] = Inr t
   \<longleftrightarrow> (\<exists>cells. list_all2 (\<lambda>a c. image_cell L img a = Inr c) as cells
         \<and> t = [(''Image'', c1 @ cells), (''Title'', c2 @ map title_cell as),
                (''Tags'', c3 @ map tags_cell as), (''Notes'', c4 @ map notes_cell as),
                (''Line Color'', c5 @ map line_color_cell as)])"
proof (induction as arbitrary: c1 c2 c3 c4 c5)
  case Nil
  then show ?case by auto
next
  case (Cons a as)
  show ?case
  proof (cases "image_cell L img a")
    case (Inl e)
    then show ?thesis by (simp add: append_image_def list_all2_Cons1)
  next
    case (Inr cell)
    then show ?thesis
      by (simp add: append_image_def loop_body_cols Cons.IH list_all2_Cons1) blast
  qed
qed

lemma search_table_loop_cols:
  "search_table_loop L images as
     [(''Image'', c1), (''Title'', c2), (''Tags'', c3), (''Notes'', c4), (''Line Color'', c5)] = Inr t
   \<longleftrightarrow> (\<forall>a \<in> set as. images (image_id a) \<noteq> None)
       \<and> (\<exists>cells. list_all2 (\<lambda>a c. image_cell L (the (images (image_id a))) a = Inr c)
                    (filter (\<lambda>a. images (image_id a) \<noteq> Some None) as) cells
         \<and> t = [(''Image'', c1 @ cells),
                (''Title'', c2 @ map title_cell (filter (\<lambda>a. images (image_id a) \<noteq> Some None) as)),
                (''Tags'', c3 @ map tags_cell (filter (\<lambda>a. images (image_id a) \<noteq> Some None) as)),
                (''Notes'', c4 @ map notes_cell (filter (\<lambda>a. images (image_id a) \<noteq> Some None) as)),
                (''Line Color'', c5 @ map line_color_cell (filter (\<lambda>a. images (image_id a) \<noteq> Some None) as))])"
proof (induction as arbitrary: c1 c2 c3 c4 c5)
  case Nil
  then show ?case by auto
next
  case (Cons a as)
  show ?case
  proof (cases "images (image_id a)")
    case None
    then show ?thesis by simp
  next
    case (Some im)
    show ?thesis
    proof (cases im)
      case None
      with Some show ?thesis by (simp add: Cons.IH)
    next
      case inner: (Some i)
      show ?thesis
      proof (cases "image_cell L (Some i) a")
        case (Inl e)
        with Some inner show ?thesis by (simp add: append_image_def list_all2_Cons1)
      next
        case (Inr cell)
        with Some inner show ?thesis
          by (simp add: append_image_def loop_body_cols Cons.IH list_all2_Cons1) blast
      qed
    qed
  qed
qed

lemma DataFrame_cols:
  assumes "length cells = length as"
  shows "DataFrame [(''Image'', cells), (''Title'', map f1 as), (''Tags'', map f2 as),
                    (''Notes'', map f3 as), (''Line Color'', map f4 as)]
         = Inr ([''Image'', ''Title'', ''Tags'', ''Notes'', ''Line Color''],
                map2 (\<lambda>c a. [c, f1 a, f2 a, f3 a, f4 a]) cells as)"
proof -
  have "map (\<lambda>i. [cells ! i, map f1 as ! i, map f2 as ! i, map f3 as ! i, map f4 as ! i])
          [0..<length as]
        = map2 (\<lambda>c a. [c, f1 a, f2 a, f3 a, f4 a]) cells as"
    using assms by (intro nth_equalityI) simp_all
  then show ?thesis
    using assms by (simp add: DataFrame_def)
qed

lemma annotation_table_loop_rows:
  assumes "annotation_table_loop L img as table_data_init = Inr t"
  shows "\<exists>cells. list_all2 (\<lambda>a c. image_cell L img a = Inr c) as cells
           \<and> DataFrame t = Inr ([''Image'', ''Title'', ''Tags'', ''Notes'', ''Line Color''],
                 map2 (\<lambda>c a. [c, title_cell a, tags_cell a, notes_cell a, line_color_cell a])
                   cells as)"
proof -
  from assms obtain cells where c: "list_all2 (\<lambda>a c. image_cell L img a = Inr c) as cells"
    and t: "t = [(''Image'', cells), (''Title'', map title_cell as), (''Tags'', map tags_cell as),
                 (''Notes'', map notes_cell as), (''Line Color'', map line_color_cell as)]"
    unfolding table_data_init_def annotation_table_loop_cols by auto
  from c have "length cells = length as" by (simp add: list_all2_lengthD)
  then show ?thesis using c unfolding t by (auto simp: DataFrame_cols)
qed

lemma search_table_rows:
  assumes "search_table L images results = Inr t"
  shows "\<exists>cells. list_all2 (\<lambda>a c. image_cell L (the (images (image_id a))) a = Inr c)
                   (filter (\<lambda>a. images (image_id a) \<noteq> Some None) results) cells
           \<and> DataFrame t = Inr ([''Image'', ''Title'', ''Tags'', ''Notes'', ''Line Color''],
                 map2 (\<lambda>c a. [c, title_cell a, tags_cell a, notes_cell a, line_color_cell a])
                   cells (filter (\<lambda>a. images (image_id a) \<noteq> Some None) results))"
proof -
  let ?kept = "filter (\<lambda>a. images (image_id a) \<noteq> Some None) results"
  have "search_table_loop L images results table_data_init = Inr t"
    using assms by (cases results) (simp_all add: search_table_def)
  then obtain cells
    where c: "list_all2 (\<lambda>a c. image_cell L (the (images (image_id a))) a = Inr c) ?kept cells"
    and t: "t = [(''Image'', cells), (''Title'', map title_cell ?kept),
                 (''Tags'', map tags_cell ?kept), (''Notes'', map notes_cell ?kept),
                 (''Line Color'', map line_color_cell ?kept)]"
    unfolding table_data_init_def search_table_loop_cols by auto
  from c have "length cells = length ?kept" by (simp add: list_all2_lengthD)
  then show ?thesis using c unfolding t by (auto simp: DataFrame_cols)
qed

text \<open>
  One pass of the loop of annotation-table.ipynb on a white 12 x 12 image, with an
  annotation whose selector is the square of the specification's example.
\<close>

lemma annotation_table_loop_example:
  "annotation_table_loop
     (Library (\<lambda>s. if s = ''0'' then Inr 0 else if s = ''10'' then Inr 10 else Inl ValueError)
        (\<lambda>v. True) (\<lambda>pts x y. x \<le> 10 \<and> y \<le> 10) (\<lambda>b. Inr ''QUJD''))
     (Some (replicate 12 (replicate 12 (255, 255, 255))))
     [Annotation 7
        (''<svg><polygon points='' @ [CHR 0x22] @ ''0,0 10,0 10,10 0,10'' @ [CHR 0x22]
           @ ''></polygon></svg>'')
        \<lparr>title = Some [''Red Robe'', ''Drapery''], tag = Some [\<lparr>term_label = ''robe''\<rparr>],
         note' = None, line_color = Some [''#ff0000'']\<rparr>]
     table_data_init
   = Inr [(''Image'', [''<img style='' @ [CHR 0x22] @ ''max-width:250px'' @ [CHR 0x22]
                        @ '' src='' @ [CHR 0x22] @ ''data:image/jpeg;base64,QUJD''
                        @ [CHR 0x22] @ ''/>'']),
          (''Title'', [''Red Robe<br>Drapery'']), (''Tags'', [''robe'']), (''Notes'', [[]]),
          (''Line Color'', [''#ff0000''])]"
  by code_simp

section \<open>Properties of the fetcher\<close>

lemma annotations_loop_eq:
  "annotations_loop lower keyword as results
   = results @ filter (\<lambda>a. annotation_contains_keyword lower a keyword) as"
  by (induction as arbitrary: results) auto

lemma annotation_sets_loop_eq:
  "annotation_sets_loop lower api keyword ids results
   = results @ concat (map (\<lambda>i. if status_code (get_annotations api i) = 200
                                 then filter (\<lambda>a. annotation_contains_keyword lower a keyword)
                                        (json (get_annotations api i))
                                 else []) ids)"
  by (induction ids arbitrary: results) (auto simp: Let_def annotations_loop_eq)

lemma image_sets_loop_eq:
  "image_sets_loop lower api keyword ids results
   = results @ concat (map (\<lambda>s. if status_code (get_annotation_sets api s) = 200
       then concat (map (\<lambda>i. if status_code (get_annotations api i) = 200
                                 then filter (\<lambda>a. annotation_contains_keyword lower a keyword)
                                        (json (get_annotations api i))
                                 else []) (json (get_annotation_sets api s)))
       else []) ids)"
  by (induction ids arbitrary: results) (auto simp: Let_def annotation_sets_loop_eq)

lemma keyword_search_eq:
  "keyword_search lower api keyword
   = (if status_code (get_image_sets api) = 200
      then concat (map (\<lambda>s. if status_code (get_annotation_sets api s) = 200
             then concat (map (\<lambda>i. if status_code (get_annotations api i) = 200
                                 then filter (\<lambda>a. annotation_contains_keyword lower a keyword)
                                        (json (get_annotations api i))
                                 else []) (json (get_annotation_sets api s)))
             else []) (json (get_image_sets api)))
      else [])"
  by (simp add: keyword_search_def Let_def image_sets_loop_eq)

lemma images_loop_None_iff:
  "images_loop api as m = Inr images \<Longrightarrow>
   images k = None \<longleftrightarrow>
     m k = None
     \<and> (k \<in> image_id ` set as \<longrightarrow>
          \<not> (status_code (get_image api k) = 200
             \<and> status_code (get_info api (json (get_image api k))) = 200))"
proof (induction as arbitrary: m)
  case Nil
  then show ?case by simp
next
  case (Cons a as)
  show ?case
  proof (cases "m (image_id a) = None \<and> status_code (get_image api (image_id a)) = 200
      \<and> status_code (get_info api (json (get_image api (image_id a)))) = 200")
    case False
    then have "images_loop api (a # as) m = images_loop api as m"
      by (auto simp: Let_def)
    with Cons.prems have "images_loop api as m = Inr images" by simp
    from Cons.IH [OF this] False show ?thesis by auto
  next
    case True
    then obtain loaded where "images_loop api as (m(image_id a \<mapsto> loaded)) = Inr images"
      using Cons.prems by (auto simp: Let_def split_beta split: sum.splits)
    from Cons.IH [OF this] True show ?thesis by auto
  qed
qed

lemma load_images_None_iff:
  "load_images api results = Inr images \<Longrightarrow>
   images k = None \<longleftrightarrow>
     (k \<in> image_id ` set results \<longrightarrow>
          \<not> (status_code (get_image api k) = 200
             \<and> status_code (get_info api (json (get_image api k))) = 200))"
proof (cases results)
  case Nil
  assume "load_images api results = Inr images"
  with Nil show ?thesis by (auto simp: load_images_def)
next
  case (Cons a as)
  assume "load_images api results = Inr images"
  with Cons have "images_loop api results Map.empty = Inr images"
    by (simp add: load_images_def)
  from images_loop_None_iff [OF this] show ?thesis by simp
qed

lemma search_table_loop_append:
  "search_table_loop L images (xs @ ys) t =
     (case search_table_loop L images xs t of
        Inl e \<Rightarrow> Inl e
      | Inr t' \<Rightarrow> search_table_loop L images ys t')"
  by (induction xs arbitrary: t) (auto split: option.splits sum.splits)

lemma search_table_loop_missing_key:
  "a \<in> set as \<Longrightarrow> images (image_id a) = None \<Longrightarrow> \<exists>e. search_table_loop L images as t = Inl e"
  by (induction as arbitrary: t) (auto split: option.splits sum.splits)

section \<open>Properties of the JSON reading of annotation-table.ipynb\<close>

lemma response_json_status: "response_json (Inr (Response st b)) = response_json (Inr (Response st' b))"
  by (simp add: response_json_def)

lemma response_json_Some [simp]: "response_json (Inr (Response st (Some j))) = Inr j"
  by (simp add: response_json_def)

lemma response_json_None [simp]: "response_json (Inr (Response st None)) = Inl JSONDecodeError"
  by (simp add: response_json_def)

lemma str_items_strs: "str_items (map JStr vs) = Inr vs"
  by (induction vs) simp_all

lemma py_join_strs: "py_join sep (JList (map JStr vs)) = Inr (join sep vs)"
  by (simp add: py_join_def str_items_strs)

lemma term_labels_tags:
  "term_labels (map (\<lambda>t. JDict [(''term_label'', JStr (term_label t))]) ts)
   = Inr (map (\<lambda>t. JStr (term_label t)) ts)"
  by (induction ts) simp_all

lemma json_image_cell_annotation:
  "json_image_cell L img (json_of_annotation a) = image_cell L img a"
  by (simp add: json_image_cell_def json_of_annotation_def image_cell_def)

lemma getitem_fields: "getitem (json_of_annotation a) ''fields'' = Inr (json_of_fields (fields a))"
  by (simp add: json_of_annotation_def)

lemma json_title_cell:
  "json_text_cell (json_of_fields (fields a)) ''title'' = Inr (title_cell a)"
  by (cases "title (fields a)"; cases "tag (fields a)"; cases "note' (fields a)";
      cases "line_color (fields a)")
     (simp_all add: json_text_cell_def json_of_fields_def json_of_field_def json_values_def
        json_of_values_def title_cell_def py_join_strs)

lemma json_notes_cell:
  "json_text_cell (json_of_fields (fields a)) ''note'' = Inr (notes_cell a)"
  by (cases "title (fields a)"; cases "tag (fields a)"; cases "note' (fields a)";
      cases "line_color (fields a)")
     (simp_all add: json_text_cell_def json_of_fields_def json_of_field_def json_values_def
        json_of_values_def json_of_tags_def notes_cell_def py_join_strs)

lemma json_line_color_cell:
  "json_text_cell (json_of_fields (fields a)) ''line_color'' = Inr (line_color_cell a)"
  by (cases "title (fields a)"; cases "tag (fields a)"; cases "note' (fields a)";
      cases "line_color (fields a)")
     (simp_all add: json_text_cell_def json_of_fields_def json_of_field_def json_values_def
        json_of_values_def json_of_tags_def line_color_cell_def py_join_strs)

lemma json_tags_cell_fields:
  "json_tags_cell (json_of_fields (fields a)) = Inr (tags_cell a)"
  by (cases "title (fields a)"; cases "tag (fields a)"; cases "note' (fields a)";
      cases "line_color (fields a)")
     (simp_all add: json_tags_cell_def json_of_fields_def json_of_field_def json_values_def
        json_of_values_def json_of_tags_def tags_cell_def term_labels_tags
        py_join_strs [of _ "map term_label ts" for ts, simplified map_map comp_def]
)

lemma json_table_loop_annotations:
  "json_table_loop L img (map json_of_annotation as) t = annotation_table_loop L img as t"
proof (induction as arbitrary: t)
  case Nil
  show ?case by simp
next
  case (Cons a as)
  show ?case
    by (cases "image_cell L img a")
       (simp_all add: json_image_cell_annotation getitem_fields json_title_cell json_tags_cell_fields
          json_notes_cell json_line_color_cell append_image_def append_fields_def
          Cons.IH)
qed

section \<open>The tables of the two notebooks\<close>

text \<open>
  Claim C2, as the code has it. In annotation-table.ipynb, whenever the loop completes
  (no image cell raises), the table has exactly one row per annotation, in input order,
  each row with the five columns Image, Title, Tags, Notes, Line Color in that order. In
  keyword-search.ipynb, whenever the loop completes, the table has one such row for every
  annotation of \<^verbatim>\<open>results\<close> whose cached image is not \<^verbatim>\<open>None\<close>, in input order: an
  annotation whose image could not be decoded (cached as \<^verbatim>\<open>None\<close>) gets no row at all. In
  both notebooks a field that is absent from the annotation's fields gives the empty
  string in its column.
\<close>

theorem table_rows_per_annotation:
  "(annotation_table_loop L img as table_data_init = Inr t \<longrightarrow>
      (\<exists>cells. length cells = length as
         \<and> DataFrame t = Inr ([''Image'', ''Title'', ''Tags'', ''Notes'', ''Line Color''],
               map2 (\<lambda>c a. [c, title_cell a, tags_cell a, notes_cell a, line_color_cell a])
                 cells as)))
   \<and> (search_table L images results = Inr t' \<longrightarrow>
      (\<exists>cells. length cells = length (filter (\<lambda>a. images (image_id a) \<noteq> Some None) results)
         \<and> DataFrame t' = Inr ([''Image'', ''Title'', ''Tags'', ''Notes'', ''Line Color''],
               map2 (\<lambda>c a. [c, title_cell a, tags_cell a, notes_cell a, line_color_cell a])
                 cells (filter (\<lambda>a. images (image_id a) \<noteq> Some None) results))))
   \<and> (title (fields a) = None \<longrightarrow> title_cell a = [])
   \<and> (tag (fields a) = None \<longrightarrow> tags_cell a = [])
   \<and> (note' (fields a) = None \<longrightarrow> notes_cell a = [])
   \<and> (line_color (fields a) = None \<longrightarrow> line_color_cell a = [])"
proof (intro conjI impI)
  assume "annotation_table_loop L img as table_data_init = Inr t"
  from annotation_table_loop_rows [OF this] obtain cells
    where "list_all2 (\<lambda>a c. image_cell L img a = Inr c) as cells"
      and "DataFrame t = Inr ([''Image'', ''Title'', ''Tags'', ''Notes'', ''Line Color''],
               map2 (\<lambda>c a. [c, title_cell a, tags_cell a, notes_cell a, line_color_cell a])
                 cells as)"
    by blast
  moreover from this have "length cells = length as" by (simp add: list_all2_lengthD)
  ultimately show "\<exists>cells. length cells = length as
         \<and> DataFrame t = Inr ([''Image'', ''Title'', ''Tags'', ''Notes'', ''Line Color''],
               map2 (\<lambda>c a. [c, title_cell a, tags_cell a, notes_cell a, line_color_cell a])
                 cells as)"
    by blast
next
  assume "search_table L images results = Inr t'"
  from search_table_rows [OF this] obtain cells
    where "list_all2 (\<lambda>a c. image_cell L (the (images (image_id a))) a = Inr c)
             (filter (\<lambda>a. images (image_id a) \<noteq> Some None) results) cells"
      and "DataFrame t' = Inr ([''Image'', ''Title'', ''Tags'', ''Notes'', ''Line Color''],
               map2 (\<lambda>c a. [c, title_cell a, tags_cell a, notes_cell a, line_color_cell a])
                 cells (filter (\<lambda>a. images (image_id a) \<noteq> Some None) results))"
    by blast
  moreover from this
  have "length cells = length (filter (\<lambda>a. images (image_id a) \<noteq> Some None) results)"
    by (simp add: list_all2_lengthD)
  ultimately show "\<exists>cells. length cells = length (filter (\<lambda>a. images (image_id a) \<noteq> Some None) results)
         \<and> DataFrame t' = Inr ([''Image'', ''Title'', ''Tags'', ''Notes'', ''Line Color''],
               map2 (\<lambda>c a. [c, title_cell a, tags_cell a, notes_cell a, line_color_cell a])
                 cells (filter (\<lambda>a. images (image_id a) \<noteq> Some None) results))"
    by blast
qed (simp_all add: title_cell_def tags_cell_def notes_cell_def line_color_cell_def)

theorem table_rows_per_annotation_witness:
  "(\<exists>cells. length cells = 2
        \<and> DataFrame [(''Image'', [[], []]), (''Title'', [''Red Robe'', []]),
              (''Tags'', [''robe<br>drapery'', []]), (''Notes'', [[], []]),
              (''Line Color'', [''#ff0000'', []])]
          = Inr ([''Image'', ''Title'', ''Tags'', ''Notes'', ''Line Color''],
                 map2 (\<lambda>c a. [c, title_cell a, tags_cell a, notes_cell a, line_color_cell a])
                   cells
                   [Annotation 7 ''<svg><circle></circle></svg>''
                      \<lparr>title = Some [''Red Robe''],
                       tag = Some [\<lparr>term_label = ''robe''\<rparr>, \<lparr>term_label = ''drapery''\<rparr>],
                       note' = None, line_color = Some [''#ff0000'']\<rparr>,
                    Annotation 7 []
                      \<lparr>title = None, tag = None, note' = None, line_color = None\<rparr>]))
   \<and> (\<exists>cells. length cells = 1
        \<and> DataFrame [(''Image'', [[]]), (''Title'', [''Halo'']), (''Tags'', [[]]),
              (''Notes'', [''gilded'']), (''Line Color'', [[]])]
          = Inr ([''Image'', ''Title'', ''Tags'', ''Notes'', ''Line Color''],
                 map2 (\<lambda>c a. [c, title_cell a, tags_cell a, notes_cell a, line_color_cell a])
                   cells
                   [Annotation 8 []
                      \<lparr>title = Some [''Halo''], tag = None, note' = Some [''gilded''],
                       line_color = None\<rparr>]))
   \<and> title_cell (Annotation 7 [] \<lparr>title = None, tag = None, note' = None, line_color = None\<rparr>)
     = []
   \<and> tags_cell (Annotation 7 [] \<lparr>title = None, tag = None, note' = None, line_color = None\<rparr>)
     = []
   \<and> notes_cell (Annotation 7 [] \<lparr>title = None, tag = None, note' = None, line_color = None\<rparr>)
     = []
   \<and> line_color_cell
       (Annotation 7 [] \<lparr>title = None, tag = None, note' = None, line_color = None\<rparr>)
     = []"
proof -
  let ?L = "Library (\<lambda>s. Inl ValueError) (\<lambda>v. True) (\<lambda>pts x y. False) (\<lambda>b. Inl CvError)"
  let ?a1 = "Annotation 7 ''<svg><circle></circle></svg>''
        \<lparr>title = Some [''Red Robe''],
         tag = Some [\<lparr>term_label = ''robe''\<rparr>, \<lparr>term_label = ''drapery''\<rparr>],
         note' = None, line_color = Some [''#ff0000'']\<rparr>"
  let ?a2 = "Annotation 7 [] \<lparr>title = None, tag = None, note' = None, line_color = None\<rparr>"
  let ?a3 = "Annotation 8 [] \<lparr>title = Some [''Halo''], tag = None, note' = Some [''gilded''],
         line_color = None\<rparr>"
  let ?t = "[(''Image'', [[], []]), (''Title'', [''Red Robe'', []]),
          (''Tags'', [''robe<br>drapery'', []]), (''Notes'', [[], []]),
          (''Line Color'', [''#ff0000'', []])]"
  let ?t' = "[(''Image'', [[]]), (''Title'', [''Halo'']), (''Tags'', [[]]),
              (''Notes'', [''gilded'']), (''Line Color'', [[]])]"
  let ?images = "[7 \<mapsto> None, 8 \<mapsto> Some [[(255, 255, 255)]]] :: nat \<rightharpoonup> image option"
  have run: "annotation_table_loop ?L None [?a1, ?a2] table_data_init = Inr ?t"
    by (simp add: table_data_init_def append_image_def image_cell_def append_fields_def
        append_to_def title_cell_def tags_cell_def notes_cell_def line_color_cell_def)
  have run': "search_table ?L ?images [?a2, ?a3, ?a2] = Inr ?t'"
    by (simp add: search_table_def table_data_init_def append_image_def image_cell_def
        append_fields_def append_to_def title_cell_def tags_cell_def notes_cell_def
        line_color_cell_def)
  have none: "title (fields ?a2) = None" "tag (fields ?a2) = None" "note' (fields ?a2) = None"
    "line_color (fields ?a2) = None"
    by simp_all
  note T = table_rows_per_annotation [where L = ?L and img = None and as = "[?a1, ?a2]"
      and t = ?t and images = ?images and results = "[?a2, ?a3, ?a2]" and t' = ?t' and a = ?a2]
  have kept: "filter (\<lambda>a. ?images (image_id a) \<noteq> Some None) [?a2, ?a3, ?a2] = [?a3]"
    by simp
  have ex: "\<exists>cells. length cells = length [?a1, ?a2]
        \<and> DataFrame ?t
          = Inr ([''Image'', ''Title'', ''Tags'', ''Notes'', ''Line Color''],
                 map2 (\<lambda>c a. [c, title_cell a, tags_cell a, notes_cell a, line_color_cell a])
                   cells [?a1, ?a2])"
    using run T by blast
  have ex': "\<exists>cells. length cells
          = length (filter (\<lambda>a. ?images (image_id a) \<noteq> Some None) [?a2, ?a3, ?a2])
        \<and> DataFrame ?t'
          = Inr ([''Image'', ''Title'', ''Tags'', ''Notes'', ''Line Color''],
                 map2 (\<lambda>c a. [c, title_cell a, tags_cell a, notes_cell a, line_color_cell a])
                   cells (filter (\<lambda>a. ?images (image_id a) \<noteq> Some None) [?a2, ?a3, ?a2]))"
    using run' T by blast
  have len: "length [?a1, ?a2] = 2" "length [?a3] = 1" by simp_all
  have cells: "title_cell ?a2 = [] \<and> tags_cell ?a2 = [] \<and> notes_cell ?a2 = []
      \<and> line_color_cell ?a2 = []"
    using none T by blast
  from ex [unfolded len] ex' [unfolded kept len] cells show ?thesis by blast
qed

theorem search_table_skips_undecoded_image_counterexample:
  "search_table
     (Library (\<lambda>s. Inl ValueError) (\<lambda>v. True) (\<lambda>pts x y. False) (\<lambda>b. Inl CvError))
     [7 \<mapsto> None]
     [Annotation 7 [] \<lparr>title = Some [''Red Robe''], tag = None, note' = None, line_color = None\<rparr>]
   = Inr table_data_init
   \<and> DataFrame table_data_init
     = Inr ([''Image'', ''Title'', ''Tags'', ''Notes'', ''Line Color''], [])"
  by (simp add: search_table_def DataFrame_def table_data_init_def)

section \<open>Failed calls\<close>

lemma listing_cell_json: "listing_cell (Inr (Response st (Some j))) = Inr ()"
  by (simp add: listing_cell_def)

lemma listing_cell_no_json: "listing_cell (Inr (Response st None)) = Inl JSONDecodeError"
  by (simp add: listing_cell_def)

lemma annotation_table_error_object:
  "annotation_table L img (Inr (Response st (Some (JDict (e # es))))) = Inl TypeError"
  by (cases e) (simp add: annotation_table_def json_image_cell_def)

lemma annotation_table_no_json:
  "annotation_table L img (Inr (Response st None)) = Inl JSONDecodeError"
  by (simp add: annotation_table_def)

lemma annotation_table_status:
  "annotation_table L img (Inr (Response st b)) = annotation_table L img (Inr (Response st' b))"
  by (simp add: annotation_table_def response_json_status [of st b st'])

lemma full_image_cells_error_object:
  "nb_images nb = Inr (Response st (Some (JDict entries))) \<Longrightarrow>
   full_image_cells L nb = Inl KeyError"
  by (simp add: full_image_cells_def)

lemma full_image_cells_info_error_object:
  assumes "response_json (nb_images nb) = Inr image_list"
    and "getitem0 image_list = Inr image_data"
    and "getitem image_data ''iiif_url'' = Inr url"
    and "nb_info nb url = Inr (Response st (Some (JDict entries)))"
    and "''width'' \<notin> fst ` set entries"
  shows "full_image_cells L nb = Inl KeyError"
proof -
  from assms(5) have "map_of entries ''width'' = None"
    by (simp add: map_of_eq_None_iff)
  with assms(1-4) show ?thesis
    by (simp add: full_image_cells_def)
qed

lemma full_image_cells_status:
  "full_image_cells L (NotebookApi c1 c2 (Inr (Response s3 b3))
       (\<lambda>u. Inr (Response (s4 u) (b4 u))) ld c5 c6)
   = full_image_cells L (NotebookApi c1' c2' (Inr (Response s3' b3))
       (\<lambda>u. Inr (Response (s4' u) (b4 u))) ld c5' c6')"
  by (simp add: full_image_cells_def response_json_def)

lemma annotation_table_notebook_status:
  "annotation_table_notebook L
     (NotebookApi (Inr (Response s1 (Some j1))) (Inr (Response s2 (Some j2)))
        (Inr (Response s3 b3)) (\<lambda>u. Inr (Response (s4 u) (b4 u))) ld
        (Inr (Response s5 (Some j5))) (Inr (Response s6 b6)))
   = annotation_table_notebook L
     (NotebookApi (Inr (Response s1' (Some j1'))) (Inr (Response s2' (Some j2')))
        (Inr (Response s3' b3)) (\<lambda>u. Inr (Response (s4' u) (b4 u))) ld
        (Inr (Response s5' (Some j5'))) (Inr (Response s6' b6)))"
proof -
  have "full_image_cells L
     (NotebookApi (Inr (Response s1 (Some j1))) (Inr (Response s2 (Some j2)))
        (Inr (Response s3 b3)) (\<lambda>u. Inr (Response (s4 u) (b4 u))) ld
        (Inr (Response s5 (Some j5))) (Inr (Response s6 b6)))
   = full_image_cells L
     (NotebookApi (Inr (Response s1' (Some j1'))) (Inr (Response s2' (Some j2')))
        (Inr (Response s3' b3)) (\<lambda>u. Inr (Response (s4' u) (b4 u))) ld
        (Inr (Response s5' (Some j5'))) (Inr (Response s6' b6)))"
    by (rule full_image_cells_status)
  then show ?thesis
    by (simp add: annotation_table_notebook_def listing_cell_json
        annotation_table_status [of L _ s6 b6 s6'])
qed

text \<open>
  Claim C7, as the code has it. In the traversal of keyword-search.ipynb a listing whose
  status is not 200 contributes nothing and its subtree is not visited, while the other
  image sets and annotation sets of the same level are still visited, and in a branch
  whose listings all have status 200 every annotation is passed to the keyword filter:
  \<^verbatim>\<open>results\<close> is the concatenation, in the order of the listings, of the matching
  annotations of every branch whose listings succeeded. annotation-table.ipynb reads no
  status at all: its result is the same whatever the six status codes. What a failed
  call does there depends on the level. The listings of collections, image sets and
  annotation sets are only parsed and printed, so whatever JSON body they carry, an error
  object too, changes nothing and raises nothing. An images listing that is an error
  object raises \<^verbatim>\<open>KeyError\<close> at \<^verbatim>\<open>images[0]\<close>; an \<^verbatim>\<open>info.json\<close> answer that is an error
  object without the key \<^verbatim>\<open>width\<close> raises \<^verbatim>\<open>KeyError\<close> at \<^verbatim>\<open>image_info['width']\<close>; an
  annotations answer that is an error object with at least one key raises \<^verbatim>\<open>TypeError\<close>
  in the table loop, which iterates over the keys; and a body that is no JSON raises
  \<^verbatim>\<open>JSONDecodeError\<close> in the cell that fetched it.
\<close>

theorem failed_calls_of_the_two_notebooks:
  "keyword_search lower api keyword
   = (if status_code (get_image_sets api) = 200
      then concat (map (\<lambda>s. if status_code (get_annotation_sets api s) = 200
             then concat (map (\<lambda>i. if status_code (get_annotations api i) = 200
                                 then filter (\<lambda>a. annotation_contains_keyword lower a keyword)
                                        (json (get_annotations api i))
                                 else []) (json (get_annotation_sets api s)))
             else []) (json (get_image_sets api)))
      else [])
   \<and> annotation_table_notebook L
       (NotebookApi (Inr (Response s1 (Some j1))) (Inr (Response s2 (Some j2)))
          (Inr (Response s3 b3)) (\<lambda>u. Inr (Response (s4 u) (b4 u))) ld
          (Inr (Response s5 (Some j5))) (Inr (Response s6 b6)))
     = annotation_table_notebook L
       (NotebookApi (Inr (Response s1' (Some j1'))) (Inr (Response s2' (Some j2')))
          (Inr (Response s3' b3)) (\<lambda>u. Inr (Response (s4' u) (b4 u))) ld
          (Inr (Response s5' (Some j5'))) (Inr (Response s6' b6)))
   \<and> (listing_cell (nb_collections nb) = Inr () \<and> listing_cell (nb_image_sets nb) = Inr ()
      \<and> nb_images nb = Inr (Response st (Some (JDict entries)))
      \<longrightarrow> annotation_table_notebook L nb = Inl KeyError)
   \<and> (listing_cell (nb_collections nb) = Inr () \<and> listing_cell (nb_image_sets nb) = Inr ()
      \<and> response_json (nb_images nb) = Inr image_list
      \<and> getitem0 image_list = Inr image_data
      \<and> getitem image_data ''iiif_url'' = Inr url
      \<and> nb_info nb url = Inr (Response st (Some (JDict entries)))
      \<and> ''width'' \<notin> fst ` set entries
      \<longrightarrow> annotation_table_notebook L nb = Inl KeyError)
   \<and> (listing_cell (nb_collections nb) = Inr () \<and> listing_cell (nb_image_sets nb) = Inr ()
      \<and> full_image_cells L nb = Inr img
      \<and> listing_cell (nb_annotation_sets nb) = Inr ()
      \<and> nb_annotations nb = Inr (Response st (Some (JDict (e # es))))
      \<longrightarrow> annotation_table_notebook L nb = Inl TypeError)
   \<and> (nb_collections nb = Inr (Response st None)
      \<longrightarrow> annotation_table_notebook L nb = Inl JSONDecodeError)
   \<and> (listing_cell (nb_collections nb) = Inr () \<and> listing_cell (nb_image_sets nb) = Inr ()
      \<and> full_image_cells L nb = Inr img
      \<and> listing_cell (nb_annotation_sets nb) = Inr ()
      \<and> nb_annotations nb = Inr (Response st None)
      \<longrightarrow> annotation_table_notebook L nb = Inl JSONDecodeError)"
proof (intro conjI impI)
  show "keyword_search lower api keyword
   = (if status_code (get_image_sets api) = 200
      then concat (map (\<lambda>s. if status_code (get_annotation_sets api s) = 200
             then concat (map (\<lambda>i. if status_code (get_annotations api i) = 200
                                 then filter (\<lambda>a. annotation_contains_keyword lower a keyword)
                                        (json (get_annotations api i))
                                 else []) (json (get_annotation_sets api s)))
             else []) (json (get_image_sets api)))
      else [])"
    by (rule keyword_search_eq)
next
  show "annotation_table_notebook L
       (NotebookApi (Inr (Response s1 (Some j1))) (Inr (Response s2 (Some j2)))
          (Inr (Response s3 b3)) (\<lambda>u. Inr (Response (s4 u) (b4 u))) ld
          (Inr (Response s5 (Some j5))) (Inr (Response s6 b6)))
     = annotation_table_notebook L
       (NotebookApi (Inr (Response s1' (Some j1'))) (Inr (Response s2' (Some j2')))
          (Inr (Response s3' b3)) (\<lambda>u. Inr (Response (s4' u) (b4 u))) ld
          (Inr (Response s5' (Some j5'))) (Inr (Response s6' b6)))"
    by (rule annotation_table_notebook_status)
next
  assume "listing_cell (nb_collections nb) = Inr () \<and> listing_cell (nb_image_sets nb) = Inr ()
      \<and> nb_images nb = Inr (Response st (Some (JDict entries)))"
  then show "annotation_table_notebook L nb = Inl KeyError"
    by (simp add: annotation_table_notebook_def full_image_cells_error_object)
next
  assume a: "listing_cell (nb_collections nb) = Inr () \<and> listing_cell (nb_image_sets nb) = Inr ()
      \<and> response_json (nb_images nb) = Inr image_list
      \<and> getitem0 image_list = Inr image_data
      \<and> getitem image_data ''iiif_url'' = Inr url
      \<and> nb_info nb url = Inr (Response st (Some (JDict entries)))
      \<and> ''width'' \<notin> fst ` set entries"
  then have "full_image_cells L nb = Inl KeyError"
    by (intro full_image_cells_info_error_object [of nb image_list image_data url st entries])
       simp_all
  with a show "annotation_table_notebook L nb = Inl KeyError"
    by (simp add: annotation_table_notebook_def)
next
  assume "listing_cell (nb_collections nb) = Inr () \<and> listing_cell (nb_image_sets nb) = Inr ()
      \<and> full_image_cells L nb = Inr img
      \<and> listing_cell (nb_annotation_sets nb) = Inr ()
      \<and> nb_annotations nb = Inr (Response st (Some (JDict (e # es))))"
  then show "annotation_table_notebook L nb = Inl TypeError"
    by (simp add: annotation_table_notebook_def annotation_table_error_object)
next
  assume "nb_collections nb = Inr (Response st None)"
  then show "annotation_table_notebook L nb = Inl JSONDecodeError"
    by (simp add: annotation_table_notebook_def listing_cell_no_json)
next
  assume "listing_cell (nb_collections nb) = Inr () \<and> listing_cell (nb_image_sets nb) = Inr ()
      \<and> full_image_cells L nb = Inr img
      \<and> listing_cell (nb_annotation_sets nb) = Inr ()
      \<and> nb_annotations nb = Inr (Response st None)"
  then show "annotation_table_notebook L nb = Inl JSONDecodeError"
    by (simp add: annotation_table_notebook_def annotation_table_no_json)
qed

theorem failed_calls_of_the_two_notebooks_witness:
  "keyword_search (map (\<lambda>c. if c = CHR ''R'' then CHR ''r'' else c))
     (Api (Response 200 [1, 2, 3])
          (\<lambda>s. if s = 1 then Response 200 [4, 5] else if s = 2 then Response 500 [6]
                else Response 200 [7])
          (\<lambda>i. if i = 4 then Response 404 []
                else if i = 5 then Response 200
                  [Annotation 1 [] \<lparr>title = Some [''Red Robe''], tag = None, note' = None,
                     line_color = None\<rparr>,
                   Annotation 1 [] \<lparr>title = Some [''Halo''], tag = None, note' = None,
                     line_color = None\<rparr>]
                else Response 200
                  [Annotation 2 [] \<lparr>title = None, tag = Some [\<lparr>term_label = ''Robe''\<rparr>],
                     note' = None, line_color = None\<rparr>])
          (\<lambda>i. Response 404 []) (\<lambda>u. Response 404 (0, 0)) (\<lambda>u. Inr []) (\<lambda>b. Inr None))
     ''robe''
   = [Annotation 1 [] \<lparr>title = Some [''Red Robe''], tag = None, note' = None,
        line_color = None\<rparr>,
      Annotation 2 [] \<lparr>title = None, tag = Some [\<lparr>term_label = ''Robe''\<rparr>],
        note' = None, line_color = None\<rparr>]
   \<and> annotation_table_notebook
       (Library (\<lambda>s. Inl ValueError) (\<lambda>v. True) (\<lambda>pts x y. False) (\<lambda>b. Inr ''QUJD''))
       (NotebookApi
          (Inr (Response 200 (Some (JList []))))
          (Inr (Response 200 (Some (JList []))))
          (Inr (Response 404 (Some (JDict [(''message'', JStr ''Not Found'')]))))
          (\<lambda>u. Inr (Response 200 (Some (JDict [(''width'', JNum ''640''),
                                                (''height'', JNum ''480'')]))))
          (\<lambda>u w h. Inr (Some [[(255, 255, 255)]]))
          (Inr (Response 200 (Some (JList []))))
          (Inr (Response 200 (Some (JList [])))))
     = Inl KeyError
   \<and> annotation_table_notebook
       (Library (\<lambda>s. Inl ValueError) (\<lambda>v. True) (\<lambda>pts x y. False) (\<lambda>b. Inr ''QUJD''))
       (NotebookApi
          (Inr (Response 200 (Some (JList []))))
          (Inr (Response 200 (Some (JList []))))
          (Inr (Response 200 (Some (JList [JDict [(''iiif_url'', JStr ''https://iiif.example/55'')]]))))
          (\<lambda>u. Inr (Response 404 (Some (JDict [(''message'', JStr ''Not Found'')]))))
          (\<lambda>u w h. Inr (Some [[(255, 255, 255)]]))
          (Inr (Response 200 (Some (JList []))))
          (Inr (Response 200 (Some (JList [])))))
     = Inl KeyError
   \<and> annotation_table_notebook
       (Library (\<lambda>s. Inl ValueError) (\<lambda>v. True) (\<lambda>pts x y. False) (\<lambda>b. Inr ''QUJD''))
       (NotebookApi
          (Inr (Response 200 (Some (JList []))))
          (Inr (Response 200 (Some (JList []))))
          (Inr (Response 200 (Some (JList [JDict [(''iiif_url'', JStr ''https://iiif.example/55'')]]))))
          (\<lambda>u. Inr (Response 200 (Some (JDict [(''width'', JNum ''640''),
                                                (''height'', JNum ''480'')]))))
          (\<lambda>u w h. Inr (Some [[(255, 255, 255)]]))
          (Inr (Response 200 (Some (JList []))))
          (Inr (Response 401 (Some (JDict [(''message'', JStr ''Unauthenticated.'')])))))
     = Inl TypeError
   \<and> annotation_table_notebook
       (Library (\<lambda>s. Inl ValueError) (\<lambda>v. True) (\<lambda>pts x y. False) (\<lambda>b. Inr ''QUJD''))
       (NotebookApi
          (Inr (Response 502 None))
          (Inr (Response 200 (Some (JList []))))
          (Inr (Response 200 (Some (JList [JDict [(''iiif_url'', JStr ''https://iiif.example/55'')]]))))
          (\<lambda>u. Inr (Response 200 (Some (JDict [(''width'', JNum ''640''),
                                                (''height'', JNum ''480'')]))))
          (\<lambda>u w h. Inr (Some [[(255, 255, 255)]]))
          (Inr (Response 200 (Some (JList []))))
          (Inr (Response 200 (Some (JList [])))))
     = Inl JSONDecodeError
   \<and> annotation_table_notebook
       (Library (\<lambda>s. Inl ValueError) (\<lambda>v. True) (\<lambda>pts x y. False) (\<lambda>b. Inr ''QUJD''))
       (NotebookApi
          (Inr (Response 200 (Some (JList []))))
          (Inr (Response 200 (Some (JList []))))
          (Inr (Response 200 (Some (JList [JDict [(''iiif_url'', JStr ''https://iiif.example/55'')]]))))
          (\<lambda>u. Inr (Response 200 (Some (JDict [(''width'', JNum ''640''),
                                                (''height'', JNum ''480'')]))))
          (\<lambda>u w h. Inr (Some [[(255, 255, 255)]]))
          (Inr (Response 200 (Some (JList []))))
          (Inr (Response 502 None)))
     = Inl JSONDecodeError"
proof -
  let ?lw = "map (\<lambda>c. if c = CHR ''R'' then CHR ''r'' else c)"
  let ?api = "Api (Response 200 [1, 2, 3])
          (\<lambda>s. if s = 1 then Response 200 [4, 5] else if s = 2 then Response 500 [6]
                else Response 200 [7])
          (\<lambda>i. if i = 4 then Response 404 []
                else if i = 5 then Response 200
                  [Annotation 1 [] \<lparr>title = Some [''Red Robe''], tag = None, note' = None,
                     line_color = None\<rparr>,
                   Annotation 1 [] \<lparr>title = Some [''Halo''], tag = None, note' = None,
                     line_color = None\<rparr>]
                else Response 200
                  [Annotation 2 [] \<lparr>title = None, tag = Some [\<lparr>term_label = ''Robe''\<rparr>],
                     note' = None, line_color = None\<rparr>])
          (\<lambda>i. Response 404 []) (\<lambda>u. Response 404 (0, 0)) (\<lambda>u. Inr []) (\<lambda>b. Inr None)"
  let ?L = "Library (\<lambda>s. Inl ValueError) (\<lambda>v. True) (\<lambda>pts x y. False) (\<lambda>b. Inr ''QUJD'')"
  let ?ok = "Inr (Response 200 (Some (JList []))) :: request"
  let ?images = "Inr (Response 200
      (Some (JList [JDict [(''iiif_url'', JStr ''https://iiif.example/55'')]]))) :: request"
  let ?info = "\<lambda>u :: json. Inr (Response 200 (Some (JDict [(''width'', JNum ''640''),
                                                (''height'', JNum ''480'')]))) :: request"
  let ?ld = "\<lambda>(u :: json) (w :: json) (h :: json).
      Inr (Some [[(255, 255, 255)]]) :: error + image option"
  let ?nbA = "NotebookApi ?ok ?ok
      (Inr (Response 404 (Some (JDict [(''message'', JStr ''Not Found'')])))) ?info ?ld ?ok ?ok"
  let ?nbB = "NotebookApi ?ok ?ok ?images
      (\<lambda>u. Inr (Response 404 (Some (JDict [(''message'', JStr ''Not Found'')])))) ?ld ?ok ?ok"
  let ?nbC = "NotebookApi ?ok ?ok ?images ?info ?ld ?ok
      (Inr (Response 401 (Some (JDict [(''message'', JStr ''Unauthenticated.'')]))))"
  let ?nbD = "NotebookApi (Inr (Response 502 None)) ?ok ?images ?info ?ld ?ok ?ok"
  let ?nbE = "NotebookApi ?ok ?ok ?images ?info ?ld ?ok (Inr (Response 502 None))"
  have search: "keyword_search ?lw ?api ''robe''
    = (if status_code (get_image_sets ?api) = 200
      then concat (map (\<lambda>s. if status_code (get_annotation_sets ?api s) = 200
             then concat (map (\<lambda>i. if status_code (get_annotations ?api i) = 200
                                 then filter (\<lambda>a. annotation_contains_keyword ?lw a ''robe'')
                                        (json (get_annotations ?api i))
                                 else []) (json (get_annotation_sets ?api s)))
             else []) (json (get_image_sets ?api)))
      else [])"
    by (rule failed_calls_of_the_two_notebooks
        [where lower = ?lw and api = ?api and keyword = "''robe''", THEN conjunct1])
  have a: "keyword_search ?lw ?api ''robe''
     = [Annotation 1 [] \<lparr>title = Some [''Red Robe''], tag = None, note' = None,
          line_color = None\<rparr>,
        Annotation 2 [] \<lparr>title = None, tag = Some [\<lparr>term_label = ''Robe''\<rparr>],
          note' = None, line_color = None\<rparr>]"
    unfolding search by (simp add: annotation_contains_keyword_def)
  have img: "full_image_cells ?L nb = Inr (Some [[(255, 255, 255)]])"
    if "nb_images nb = ?images" "nb_info nb = ?info" "nb_load_image nb = ?ld" for nb
    using that by (simp add: full_image_cells_def image_to_html_def)
  have b: "annotation_table_notebook ?L ?nbA = Inl KeyError"
    by (rule failed_calls_of_the_two_notebooks [where L = ?L and nb = ?nbA and st = 404
          and entries = "[(''message'', JStr ''Not Found'')]",
          THEN conjunct2, THEN conjunct2, THEN conjunct1, THEN mp])
       (simp add: listing_cell_def)
  have c: "annotation_table_notebook ?L ?nbB = Inl KeyError"
    by (rule failed_calls_of_the_two_notebooks [where L = ?L and nb = ?nbB and st = 404
          and entries = "[(''message'', JStr ''Not Found'')]"
          and image_list = "JList [JDict [(''iiif_url'', JStr ''https://iiif.example/55'')]]"
          and image_data = "JDict [(''iiif_url'', JStr ''https://iiif.example/55'')]"
          and url = "JStr ''https://iiif.example/55''",
          THEN conjunct2, THEN conjunct2, THEN conjunct2, THEN conjunct1, THEN mp])
       (simp add: listing_cell_def)
  have d: "annotation_table_notebook ?L ?nbC = Inl TypeError"
    by (rule failed_calls_of_the_two_notebooks [where L = ?L and nb = ?nbC and st = 401
          and e = "(''message'', JStr ''Unauthenticated.'')" and es = "[]"
          and img = "Some [[(255, 255, 255)]]",
          THEN conjunct2, THEN conjunct2, THEN conjunct2, THEN conjunct2, THEN conjunct1,
          THEN mp])
       (simp add: listing_cell_def img)
  have e: "annotation_table_notebook ?L ?nbD = Inl JSONDecodeError"
    by (rule failed_calls_of_the_two_notebooks [where L = ?L and nb = ?nbD and st = 502,
          THEN conjunct2, THEN conjunct2, THEN conjunct2, THEN conjunct2, THEN conjunct2,
          THEN conjunct1, THEN mp])
       simp
  have f: "annotation_table_notebook ?L ?nbE = Inl JSONDecodeError"
    by (rule failed_calls_of_the_two_notebooks [where L = ?L and nb = ?nbE and st = 502
          and img = "Some [[(255, 255, 255)]]",
          THEN conjunct2, THEN conjunct2, THEN conjunct2, THEN conjunct2, THEN conjunct2,
          THEN conjunct2, THEN mp])
       (simp add: listing_cell_def img)
  show ?thesis
    using a b c d e f by (intro conjI)
qed

theorem failed_listing_raises_nothing_counterexample:
  "annotation_table_notebook
     (Library (\<lambda>s. Inl ValueError) (\<lambda>v. True) (\<lambda>pts x y. False) (\<lambda>b. Inr ''QUJD''))
     (NotebookApi
        (Inr (Response 401 (Some (JDict [(''message'', JStr ''Unauthenticated.'')]))))
        (Inr (Response 403 (Some (JDict [(''message'', JStr ''Forbidden'')]))))
        (Inr (Response 200 (Some (JList [JDict [(''iiif_url'', JStr ''https://iiif.example/55'')]]))))
        (\<lambda>u. Inr (Response 200 (Some (JDict [(''width'', JNum ''640''),
                                              (''height'', JNum ''480'')]))))
        (\<lambda>u w h. Inr (Some [[(255, 255, 255)]]))
        (Inr (Response 500 (Some (JDict [(''message'', JStr ''Server Error'')]))))
        (Inr (Response 200 (Some (JList
           [JDict [(''target'', JDict [(''selector'',
                      JDict [(''value'', JStr ''<svg><circle></circle></svg>'')])]),
                   (''fields'', JDict [(''title'',
                      JDict [(''en'', JDict [(''values'', JList [JStr ''Red Robe''])])])])]])))))
   = Inr [(''Image'', [[]]), (''Title'', [''Red Robe'']), (''Tags'', [[]]), (''Notes'', [[]]),
          (''Line Color'', [[]])]"
  by (simp add: annotation_table_notebook_def listing_cell_def full_image_cells_def
      image_to_html_def annotation_table_def json_image_cell_def json_text_cell_def
      json_tags_cell_def json_values_def py_join_def table_data_init_def append_to_def)

section \<open>Row order and the image cache\<close>

lemma annotation_table_annotations:
  "annotation_table L img (Inr (Response st (Some (JList (map json_of_annotation as)))))
   = annotation_table_loop L img as table_data_init"
  by (simp add: annotation_table_def json_table_loop_annotations)

text \<open>
  Claim C8. The rows list the annotations in the order they were received. In
  annotation-table.ipynb row \<open>i\<close> is built from annotation \<open>i\<close> of the response. In
  keyword-search.ipynb the rows are built, one after the other, from the annotations of
  \<^verbatim>\<open>results\<close> whose cached image is not \<^verbatim>\<open>None\<close>, and \<^verbatim>\<open>results\<close> holds the matching
  annotations in traversal order. Nothing is sorted, grouped or de-duplicated on the way:
  an annotation received twice gives two rows.
\<close>

theorem rows_in_traversal_order:
  "(annotation_table L img (Inr (Response st (Some (JList (map json_of_annotation as))))) = Inr t
      \<longrightarrow>
      (\<exists>cells. list_all2 (\<lambda>a c. image_cell L img a = Inr c) as cells
         \<and> DataFrame t = Inr ([''Image'', ''Title'', ''Tags'', ''Notes'', ''Line Color''],
               map2 (\<lambda>c a. [c, title_cell a, tags_cell a, notes_cell a, line_color_cell a])
                 cells as)))
   \<and> (keyword_search_table lower L api keyword = Inr t' \<longrightarrow>
      (\<exists>images cells.
         load_images api (keyword_search lower api keyword) = Inr images
         \<and> list_all2
             (\<lambda>a c. image_cell L (the (images (image_id a))) a = Inr c)
             (filter (\<lambda>a. images (image_id a) \<noteq> Some None) (keyword_search lower api keyword))
             cells
         \<and> DataFrame t' = Inr ([''Image'', ''Title'', ''Tags'', ''Notes'', ''Line Color''],
               map2 (\<lambda>c a. [c, title_cell a, tags_cell a, notes_cell a, line_color_cell a])
                 cells
                 (filter (\<lambda>a. images (image_id a) \<noteq> Some None)
                    (keyword_search lower api keyword)))))
   \<and> keyword_search lower api keyword
     = (if status_code (get_image_sets api) = 200
        then concat (map (\<lambda>s. if status_code (get_annotation_sets api s) = 200
               then concat (map (\<lambda>i. if status_code (get_annotations api i) = 200
                                   then filter (\<lambda>a. annotation_contains_keyword lower a keyword)
                                          (json (get_annotations api i))
                                   else []) (json (get_annotation_sets api s)))
               else []) (json (get_image_sets api)))
        else [])"
proof (intro conjI impI)
  assume "annotation_table L img (Inr (Response st (Some (JList (map json_of_annotation as)))))
    = Inr t"
  then have "annotation_table_loop L img as table_data_init = Inr t"
    by (simp only: annotation_table_annotations)
  then show "\<exists>cells. list_all2 (\<lambda>a c. image_cell L img a = Inr c) as cells
         \<and> DataFrame t = Inr ([''Image'', ''Title'', ''Tags'', ''Notes'', ''Line Color''],
               map2 (\<lambda>c a. [c, title_cell a, tags_cell a, notes_cell a, line_color_cell a])
                 cells as)"
    by (rule annotation_table_loop_rows)
next
  assume r: "keyword_search_table lower L api keyword = Inr t'"
  then obtain images where l: "load_images api (keyword_search lower api keyword) = Inr images"
    and s: "search_table L images (keyword_search lower api keyword) = Inr t'"
    by (auto simp: keyword_search_table_def Let_def split: sum.splits)
  from search_table_rows [OF s] l
  show "\<exists>images cells.
         load_images api (keyword_search lower api keyword) = Inr images
         \<and> list_all2
             (\<lambda>a c. image_cell L (the (images (image_id a))) a = Inr c)
             (filter (\<lambda>a. images (image_id a) \<noteq> Some None) (keyword_search lower api keyword))
             cells
         \<and> DataFrame t' = Inr ([''Image'', ''Title'', ''Tags'', ''Notes'', ''Line Color''],
               map2 (\<lambda>c a. [c, title_cell a, tags_cell a, notes_cell a, line_color_cell a])
                 cells
                 (filter (\<lambda>a. images (image_id a) \<noteq> Some None)
                    (keyword_search lower api keyword)))"
    by blast
next
  show "keyword_search lower api keyword
     = (if status_code (get_image_sets api) = 200
        then concat (map (\<lambda>s. if status_code (get_annotation_sets api s) = 200
               then concat (map (\<lambda>i. if status_code (get_annotations api i) = 200
                                   then filter (\<lambda>a. annotation_contains_keyword lower a keyword)
                                          (json (get_annotations api i))
                                   else []) (json (get_annotation_sets api s)))
               else []) (json (get_image_sets api)))
        else [])"
    by (rule keyword_search_eq)
qed

theorem rows_in_traversal_order_witness:
  "DataFrame [(''Image'', [[], [], []]), (''Title'', [''Robe'', ''Halo'', ''Robe'']),
          (''Tags'', [[], [], []]), (''Notes'', [[], [], []]), (''Line Color'', [[], [], []])]
     = Inr ([''Image'', ''Title'', ''Tags'', ''Notes'', ''Line Color''],
            [[[], ''Robe'', [], [], []], [[], ''Halo'', [], [], []], [[], ''Robe'', [], [], []]])
   \<and> keyword_search_table
       (map (\<lambda>c. if c = CHR ''R'' then CHR ''r'' else c))
       (Library (\<lambda>s. Inl ValueError) (\<lambda>v. True) (\<lambda>pts x y. False) (\<lambda>b. Inl CvError))
       (Api (Response 200 [1, 2])
          (\<lambda>s. if s = 1 then Response 200 [5] else Response 200 [6])
          (\<lambda>i. if i = 5
                then Response 200
                  [Annotation 8 [] \<lparr>title = Some [''Red Robe''], tag = None, note' = None,
                     line_color = None\<rparr>,
                   Annotation 8 [] \<lparr>title = Some [''Halo''], tag = None, note' = None,
                     line_color = None\<rparr>]
                else Response 200
                  [Annotation 9 [] \<lparr>title = Some [''Blue robe''], tag = None, note' = None,
                     line_color = None\<rparr>,
                   Annotation 8 [] \<lparr>title = Some [''Red Robe''], tag = None, note' = None,
                     line_color = None\<rparr>])
          (\<lambda>i. Response 200 ''https://iiif.example/img'')
          (\<lambda>u. Response 200 (1, 1)) (\<lambda>u. Inr ''jpeg'') (\<lambda>b. Inr (Some [[(255, 255, 255)]])))
       ''robe''
     = Inr [(''Image'', [[], [], []]), (''Title'', [''Red Robe'', ''Blue robe'', ''Red Robe'']),
            (''Tags'', [[], [], []]), (''Notes'', [[], [], []]), (''Line Color'', [[], [], []])]
   \<and> (\<exists>cells.
        DataFrame [(''Image'', [[], [], []]),
          (''Title'', [''Red Robe'', ''Blue robe'', ''Red Robe'']),
          (''Tags'', [[], [], []]), (''Notes'', [[], [], []]), (''Line Color'', [[], [], []])]
        = Inr ([''Image'', ''Title'', ''Tags'', ''Notes'', ''Line Color''],
               map2 (\<lambda>c a. [c, title_cell a, tags_cell a, notes_cell a, line_color_cell a])
                 cells
                 [Annotation 8 [] \<lparr>title = Some [''Red Robe''], tag = None, note' = None,
                    line_color = None\<rparr>,
                  Annotation 9 [] \<lparr>title = Some [''Blue robe''], tag = None, note' = None,
                    line_color = None\<rparr>,
                  Annotation 8 [] \<lparr>title = Some [''Red Robe''], tag = None, note' = None,
                    line_color = None\<rparr>]))"
proof -
  let ?lw = "map (\<lambda>c. if c = CHR ''R'' then CHR ''r'' else c)"
  let ?L = "Library (\<lambda>s. Inl ValueError) (\<lambda>v. True) (\<lambda>pts x y. False) (\<lambda>b. Inl CvError)"
  let ?as = "[Annotation 7 [] \<lparr>title = Some [''Robe''], tag = None, note' = None, line_color = None\<rparr>,
         Annotation 7 [] \<lparr>title = Some [''Halo''], tag = None, note' = None, line_color = None\<rparr>,
         Annotation 7 [] \<lparr>title = Some [''Robe''], tag = None, note' = None, line_color = None\<rparr>]"
  let ?t = "[(''Image'', [[], [], []]), (''Title'', [''Robe'', ''Halo'', ''Robe'']),
          (''Tags'', [[], [], []]), (''Notes'', [[], [], []]), (''Line Color'', [[], [], []])]"
  let ?api = "Api (Response 200 [1, 2])
          (\<lambda>s. if s = 1 then Response 200 [5] else Response 200 [6])
          (\<lambda>i. if i = 5
                then Response 200
                  [Annotation 8 [] \<lparr>title = Some [''Red Robe''], tag = None, note' = None,
                     line_color = None\<rparr>,
                   Annotation 8 [] \<lparr>title = Some [''Halo''], tag = None, note' = None,
                     line_color = None\<rparr>]
                else Response 200
                  [Annotation 9 [] \<lparr>title = Some [''Blue robe''], tag = None, note' = None,
                     line_color = None\<rparr>,
                   Annotation 8 [] \<lparr>title = Some [''Red Robe''], tag = None, note' = None,
                     line_color = None\<rparr>])
          (\<lambda>i. Response 200 ''https://iiif.example/img'')
          (\<lambda>u. Response 200 (1, 1)) (\<lambda>u. Inr ''jpeg'') (\<lambda>b. Inr (Some [[(255, 255, 255)]]))"
  let ?t' = "[(''Image'', [[], [], []]),
          (''Title'', [''Red Robe'', ''Blue robe'', ''Red Robe'']),
          (''Tags'', [[], [], []]), (''Notes'', [[], [], []]), (''Line Color'', [[], [], []])]"
  let ?results = "[Annotation 8 [] \<lparr>title = Some [''Red Robe''], tag = None, note' = None,
                     line_color = None\<rparr>,
                   Annotation 9 [] \<lparr>title = Some [''Blue robe''], tag = None, note' = None,
                     line_color = None\<rparr>,
                   Annotation 8 [] \<lparr>title = Some [''Red Robe''], tag = None, note' = None,
                     line_color = None\<rparr>]"
  have run: "annotation_table ?L None
      (Inr (Response 200 (Some (JList (map json_of_annotation ?as))))) = Inr ?t"
    unfolding annotation_table_annotations
    by (simp add: table_data_init_def append_image_def image_cell_def
        append_fields_def append_to_def title_cell_def tags_cell_def notes_cell_def
        line_color_cell_def)
  from run rows_in_traversal_order [where L = ?L and img = None and st = 200 and as = ?as
      and t = ?t]
  obtain cells where c: "list_all2 (\<lambda>a c. image_cell ?L None a = Inr c) ?as cells"
    and d: "DataFrame ?t = Inr ([''Image'', ''Title'', ''Tags'', ''Notes'', ''Line Color''],
               map2 (\<lambda>c a. [c, title_cell a, tags_cell a, notes_cell a, line_color_cell a])
                 cells ?as)"
    by blast
  from c have "cells = [[], [], []]"
    by (simp add: list_all2_Cons1 image_cell_def)
  with d have first: "DataFrame ?t
     = Inr ([''Image'', ''Title'', ''Tags'', ''Notes'', ''Line Color''],
            [[[], ''Robe'', [], [], []], [[], ''Halo'', [], [], []], [[], ''Robe'', [], [], []]])"
    by (simp add: title_cell_def tags_cell_def notes_cell_def line_color_cell_def)
  have ks: "keyword_search ?lw ?api ''robe'' = ?results"
    by code_simp
  have run': "keyword_search_table ?lw ?L ?api ''robe'' = Inr ?t'"
    by code_simp
  from run' rows_in_traversal_order [where lower = ?lw and L = ?L and api = ?api
      and keyword = "''robe''" and t' = ?t']
  obtain images cells' where l: "load_images ?api (keyword_search ?lw ?api ''robe'') = Inr images"
    and d': "DataFrame ?t'
      = Inr ([''Image'', ''Title'', ''Tags'', ''Notes'', ''Line Color''],
             map2 (\<lambda>c a. [c, title_cell a, tags_cell a, notes_cell a, line_color_cell a])
               cells'
               (filter (\<lambda>a. images (image_id a) \<noteq> Some None)
                  (keyword_search ?lw ?api ''robe'')))"
    by blast
  from l [unfolded ks] have "images 8 \<noteq> Some None \<and> images 9 \<noteq> Some None"
    by (auto simp: load_images_def Let_def load_image_from_url_def)
  then have kept: "filter (\<lambda>a. images (image_id a) \<noteq> Some None) ?results = ?results"
    by simp
  from d' [unfolded ks kept]
  have second: "\<exists>cells. DataFrame ?t'
      = Inr ([''Image'', ''Title'', ''Tags'', ''Notes'', ''Line Color''],
             map2 (\<lambda>c a. [c, title_cell a, tags_cell a, notes_cell a, line_color_cell a])
               cells ?results)"
    by blast
  from first run' second show ?thesis by blast
qed

text \<open>
  Claim C9. In the table builder of keyword-search.ipynb an annotation of \<^verbatim>\<open>results\<close>
  whose image metadata fetch or \<^verbatim>\<open>info.json\<close> fetch did not return status 200 has no
  key in \<^verbatim>\<open>images\<close>, and the table build raises instead of returning a table, so the
  notebook as a whole returns no table; the lookup \<^verbatim>\<open>images[annotation['image_id']]\<close> of
  the first such annotation raises \<^verbatim>\<open>KeyError\<close> when the annotations before it were
  processed without an exception. The guard \<^verbatim>\<open>if image is not None\<close> only covers a key
  stored with the value \<^verbatim>\<open>None\<close>: that annotation is skipped and the loop goes on.
\<close>

theorem search_table_missing_image_key:
  "(a \<in> set results
      \<and> (status_code (get_image api (image_id a)) \<noteq> 200
         \<or> status_code (get_info api (json (get_image api (image_id a)))) \<noteq> 200)
      \<and> load_images api results = Inr images'
      \<longrightarrow> images' (image_id a) = None
        \<and> (\<exists>e. search_table L images' results = Inl e))
   \<and> (a \<in> set (keyword_search lower api keyword)
      \<and> (status_code (get_image api (image_id a)) \<noteq> 200
         \<or> status_code (get_info api (json (get_image api (image_id a)))) \<noteq> 200)
      \<longrightarrow> (\<exists>e. keyword_search_table lower L api keyword = Inl e))
   \<and> (images (image_id a) = None \<and> search_table_loop L images pre t = Inr t1
      \<longrightarrow> search_table_loop L images (pre @ a # post) t = Inl KeyError)
   \<and> (images (image_id a) = Some None
      \<longrightarrow> search_table_loop L images (a # post) t = search_table_loop L images post t)"
proof -
  have missing: "m (image_id a) = None \<and> (\<exists>e. search_table L m rs = Inl e)"
    if h: "a \<in> set rs" "status_code (get_image api (image_id a)) \<noteq> 200
         \<or> status_code (get_info api (json (get_image api (image_id a)))) \<noteq> 200"
      and l: "load_images api rs = Inr m" for rs m
  proof
    show n: "m (image_id a) = None"
      using h by (auto simp: load_images_None_iff [OF l])
    from h have "rs \<noteq> []" by auto
    then have "search_table L m rs = search_table_loop L m rs table_data_init"
      by (simp add: search_table_def)
    with h n search_table_loop_missing_key [of a rs m L table_data_init]
    show "\<exists>e. search_table L m rs = Inl e"
      by simp
  qed
  show ?thesis
  proof (intro conjI impI)
    assume "a \<in> set results
      \<and> (status_code (get_image api (image_id a)) \<noteq> 200
         \<or> status_code (get_info api (json (get_image api (image_id a)))) \<noteq> 200)
      \<and> load_images api results = Inr images'"
    then have "images' (image_id a) = None \<and> (\<exists>e. search_table L images' results = Inl e)"
      by (intro missing) simp_all
    then show "images' (image_id a) = None" "\<exists>e. search_table L images' results = Inl e"
      by simp_all
  next
    assume h: "a \<in> set (keyword_search lower api keyword)
      \<and> (status_code (get_image api (image_id a)) \<noteq> 200
         \<or> status_code (get_info api (json (get_image api (image_id a)))) \<noteq> 200)"
    show "\<exists>e. keyword_search_table lower L api keyword = Inl e"
    proof (cases "load_images api (keyword_search lower api keyword)")
      case (Inl e)
      then show ?thesis by (simp add: keyword_search_table_def Let_def)
    next
      case (Inr m)
      with h have "\<exists>e. search_table L m (keyword_search lower api keyword) = Inl e"
        using missing [of "keyword_search lower api keyword" m] by simp
      with Inr show ?thesis by (simp add: keyword_search_table_def Let_def)
    qed
  next
    assume "images (image_id a) = None \<and> search_table_loop L images pre t = Inr t1"
    then show "search_table_loop L images (pre @ a # post) t = Inl KeyError"
      by (simp add: search_table_loop_append)
  next
    assume "images (image_id a) = Some None"
    then show "search_table_loop L images (a # post) t = search_table_loop L images post t"
      by simp
  qed
qed

theorem search_table_missing_image_key_witness:
  "load_images
     (Api (Response 200 []) (\<lambda>s. Response 200 []) (\<lambda>i. Response 200 [])
        (\<lambda>i. if i = 7 then Response 404 [] else Response 200 ''https://iiif.example/8'')
        (\<lambda>u. Response 200 (640, 480)) (\<lambda>u. Inr []) (\<lambda>b. Inr None))
     [Annotation 8 [] \<lparr>title = Some [''Red Robe''], tag = None, note' = None, line_color = None\<rparr>,
      Annotation 7 [] \<lparr>title = Some [''Robe''], tag = None, note' = None, line_color = None\<rparr>]
   = Inr [8 \<mapsto> None]
   \<and> search_table
     (Library (\<lambda>s. Inl ValueError) (\<lambda>v. True) (\<lambda>pts x y. False) (\<lambda>b. Inl CvError))
     [8 \<mapsto> None]
     [Annotation 8 [] \<lparr>title = Some [''Red Robe''], tag = None, note' = None, line_color = None\<rparr>,
      Annotation 7 [] \<lparr>title = Some [''Robe''], tag = None, note' = None, line_color = None\<rparr>]
   = Inl KeyError"
proof -
  let ?api = "Api (Response 200 []) (\<lambda>s. Response 200 []) (\<lambda>i. Response 200 [])
        (\<lambda>i. if i = 7 then Response 404 [] else Response 200 ''https://iiif.example/8'')
        (\<lambda>u. Response 200 (640, 480)) (\<lambda>u. Inr []) (\<lambda>b. Inr None)"
  let ?L = "Library (\<lambda>s. Inl ValueError) (\<lambda>v. True) (\<lambda>pts x y. False) (\<lambda>b. Inl CvError)"
  let ?a8 = "Annotation 8 [] \<lparr>title = Some [''Red Robe''], tag = None, note' = None,
      line_color = None\<rparr>"
  let ?a7 = "Annotation 7 [] \<lparr>title = Some [''Robe''], tag = None, note' = None,
      line_color = None\<rparr>"
  let ?images = "[8 \<mapsto> None] :: nat \<rightharpoonup> image option"
  have cache: "load_images ?api [?a8, ?a7] = Inr ?images"
    by (simp add: load_images_def load_image_from_url_def Let_def)
  have pre: "search_table_loop ?L ?images [?a8] table_data_init = Inr table_data_init"
    by simp
  have "search_table_loop ?L ?images ([?a8] @ ?a7 # []) table_data_init = Inl KeyError"
    using pre
      search_table_missing_image_key [where a = ?a7 and L = ?L and images = ?images
        and pre = "[?a8]" and t = table_data_init and ?t1.0 = table_data_init and post = "[]"]
    by simp
  then have "search_table ?L ?images [?a8, ?a7] = Inl KeyError"
    by (simp add: search_table_def)
  with cache show ?thesis by simp
qed

end
